theory Spec2Isabelle
  imports Main "HOL-Library.Word" "HOL-Library.AList"
begin

section \<open>Trezor signing of a PSBT (hwilib/trezori.py)\<close>

text \<open>
  A shallow embedding of \<^verbatim>\<open>TxAPIPSBT.get_tx\<close> and \<^verbatim>\<open>TrezorClient.sign_tx\<close>.
  Python exceptions are values of type \<open>error\<close>; a function that may raise returns
  \<open>error + 'a\<close> with \<open>Inl\<close> for the exception. Objects that Python mutates in
  place (the PSBT inputs, the list of signatures, the loop variable \<^verbatim>\<open>sig\<close>) are
  passed and returned explicitly.
\<close>

subsection \<open>Python values\<close>

type_synonym byte = "8 word"
type_synonym bytes = "byte list"

datatype error =
    ValueError string
  | TypeError string
  | IndexError
  | KeyError
  | UnboundLocalError
  | BinasciiError string
  | ExternalError string

text \<open>\<^verbatim>\<open>xs[i]\<close>: a negative index counts from the end, an index out of range raises.\<close>

definition py_index :: "'a list \<Rightarrow> int \<Rightarrow> error + 'a" where
  "py_index xs i =
     (let len = int (length xs);
          k = (if i < 0 then i + len else i)
      in if k < 0 \<or> len \<le> k then Inl IndexError else Inr (xs ! nat k))"

text \<open>\<^verbatim>\<open>xs[a:b]\<close> for constant bounds \<open>0 \<le> a \<le> b\<close>: never raises, a short list gives a short slice.\<close>

definition py_slice :: "nat \<Rightarrow> nat \<Rightarrow> 'a list \<Rightarrow> 'a list" where
  "py_slice a b xs = take (b - a) (drop a xs)"

text \<open>\<^verbatim>\<open>xs.remove(x)\<close>: deletes the first element equal to \<open>x\<close>, raises when there is none.\<close>

definition list_remove :: "'a \<Rightarrow> 'a list \<Rightarrow> error + 'a list" where
  "list_remove x xs =
     (if x \<in> set xs then Inr (remove1 x xs)
      else Inl (ValueError ''list.remove(x): x not in list''))"

text \<open>
  A dict is the list of its items in insertion order; the keys of a dict are distinct.
  \<^verbatim>\<open>d[k] = v\<close> keeps the position of a key that is present and appends a new one.
\<close>

type_synonym ('k, 'v) dict = "('k \<times> 'v) list"

definition dict_keys :: "('k, 'v) dict \<Rightarrow> 'k list" where
  "dict_keys d = map fst d"

definition dict_len :: "('k, 'v) dict \<Rightarrow> nat" where
  "dict_len d = length d"

definition dict_get :: "('k, 'v) dict \<Rightarrow> 'k \<Rightarrow> error + 'v" where
  "dict_get d k = (case map_of d k of None \<Rightarrow> Inl KeyError | Some v \<Rightarrow> Inr v)"

definition dict_set :: "('k, 'v) dict \<Rightarrow> 'k \<Rightarrow> 'v \<Rightarrow> ('k, 'v) dict" where
  "dict_set d k v = AList.update k v d"

text \<open>
  \<^verbatim>\<open>binascii.unhexlify\<close> on a str: the characters must be ASCII, their number even,
  and two hexadecimal digits (either case) make one byte.
\<close>

definition hex_digit :: "char \<Rightarrow> nat option" where
  "hex_digit c =
     (let k = (of_char c :: nat)
      in if 48 \<le> k \<and> k \<le> 57 then Some (k - 48)
         else if 97 \<le> k \<and> k \<le> 102 then Some (k - 87)
         else if 65 \<le> k \<and> k \<le> 70 then Some (k - 55)
         else None)"

fun unhexlify_pairs :: "string \<Rightarrow> error + bytes" where
  "unhexlify_pairs (a # b # rest) =
     (case (hex_digit a, hex_digit b) of
        (Some hi, Some lo) \<Rightarrow>
          (case unhexlify_pairs rest of
             Inl e \<Rightarrow> Inl e
           | Inr bs \<Rightarrow> Inr (of_nat (16 * hi + lo) # bs))
      | _ \<Rightarrow> Inl (BinasciiError ''Non-hexadecimal digit found''))"
| "unhexlify_pairs [a] = Inl (BinasciiError ''Odd-length string'')"
| "unhexlify_pairs [] = Inr []"

definition unhexlify :: "string \<Rightarrow> error + bytes" where
  "unhexlify s =
     (if list_ex (\<lambda>c. 128 \<le> (of_char c :: nat)) s then
        Inl (ValueError ''string argument should contain only ASCII characters'')
      else if odd (length s) then Inl (BinasciiError ''Odd-length string'')
      else unhexlify_pairs s)"

subsection \<open>Transactions and the PSBT (the classes of hwilib/serializations.py)\<close>

text \<open>
  The fields the code reads. \<^verbatim>\<open>COutPoint.hash\<close> and \<^verbatim>\<open>COutPoint.n\<close> are named
  \<open>out_hash\<close> and \<open>out_n\<close>, \<^verbatim>\<open>PSBT.tx\<close> and \<^verbatim>\<open>PSBT.inputs\<close> are named
  \<open>psbt_tx\<close> and \<open>psbt_inputs\<close>. An attribute that holds \<^verbatim>\<open>None\<close> or an object is
  an option.
\<close>

record COutPoint =
  out_hash :: int
  out_n :: int

record CTxIn =
  prevout :: COutPoint
  scriptSig :: bytes
  nSequence :: int

record CTxOut =
  nValue :: int
  scriptPubKey :: bytes

record CTransaction =
  nVersion :: int
  vin :: "CTxIn list"
  vout :: "CTxOut list"
  nLockTime :: int
  sha256 :: int

text \<open>
  \<open>hd_keypaths\<close> maps a public key to the sequence made of the fingerprint followed by
  the derivation path; \<open>partial_sigs\<close> maps a public key to a signature.
\<close>

record PSBTInput =
  non_witness_utxo :: "CTransaction option"
  witness_utxo :: "CTxOut option"
  hd_keypaths :: "(bytes, int list) dict"
  partial_sigs :: "(bytes, bytes) dict"

record PSBT =
  psbt_tx :: CTransaction
  psbt_inputs :: "PSBTInput list"

subsection \<open>The messages of trezorlib\<close>

datatype InputScriptType = SPENDADDRESS | SPENDMULTISIG | EXTERNAL | SPENDWITNESS | SPENDP2SHWITNESS

datatype OutputScriptType = PAYTOADDRESS | PAYTOSCRIPTHASH | PAYTOMULTISIG | PAYTOOPRETURN
  | PAYTOWITNESS | PAYTOP2SHWITNESS

text \<open>A field that the code has not assigned is \<open>None\<close>.\<close>

record TxInputType =
  address_n :: "int list option"
  prev_hash :: "bytes option"
  prev_index :: "int option"
  script_sig :: "bytes option"
  sequence :: "int option"
  script_type :: "InputScriptType option"
  amount :: "int option"

definition new_TxInputType :: TxInputType where
  "new_TxInputType =
     \<lparr>address_n = None, prev_hash = None, prev_index = None, script_sig = None,
      sequence = None, script_type = None, amount = None\<rparr>"

record TxOutputType =
  o_address :: "string option"
  o_amount :: "int option"
  o_script_type :: "OutputScriptType option"

definition new_TxOutputType :: TxOutputType where
  "new_TxOutputType = \<lparr>o_address = None, o_amount = None, o_script_type = None\<rparr>"

record TxOutputBinType =
  b_amount :: "int option"
  b_script_pubkey :: "bytes option"

definition new_TxOutputBinType :: TxOutputBinType where
  "new_TxOutputBinType = \<lparr>b_amount = None, b_script_pubkey = None\<rparr>"

record TransactionType =
  version :: "int option"
  lock_time :: "int option"
  t_inputs :: "TxInputType list"
  bin_outputs :: "TxOutputBinType list"

definition new_TransactionType :: TransactionType where
  "new_TransactionType = \<lparr>version = None, lock_time = None, t_inputs = [], bin_outputs = []\<rparr>"

subsection \<open>Functions of the repository that are not in trezori.py\<close>

text \<open>
  The helpers that trezori.py imports are parameters of the model: every theorem holds
  for whatever they compute. \<open>is_p2sh\<close>, \<open>is_p2pkh\<close> and \<open>is_witness\<close> are the methods
  of \<^verbatim>\<open>CTxOut\<close>, \<open>bech32_encode\<close> is \<^verbatim>\<open>bech32.encode\<close>, \<open>serialize\<close> is
  \<^verbatim>\<open>PSBT.serialize\<close>.
\<close>

record hwilib =
  ser_uint256 :: "int \<Rightarrow> bytes"
  uint256_from_str :: "bytes \<Rightarrow> error + int"
  get_xpub_fingerprint :: "string \<Rightarrow> error + int"
  is_p2sh :: "CTxOut \<Rightarrow> bool"
  is_p2pkh :: "CTxOut \<Rightarrow> bool"
  is_witness :: "CTxOut \<Rightarrow> bool \<times> int \<times> bytes"
  to_address :: "bytes \<Rightarrow> bytes \<Rightarrow> string"
  bech32_encode :: "string \<Rightarrow> int \<Rightarrow> bytes \<Rightarrow> string"
  serialize :: "PSBT \<Rightarrow> string"

subsection \<open>\<^verbatim>\<open>TxAPIPSBT.get_tx\<close>\<close>

text \<open>\<^verbatim>\<open>uint256_from_str(binascii.unhexlify(txhash)[::-1])\<close>\<close>

definition requested_hash :: "hwilib \<Rightarrow> string \<Rightarrow> error + int" where
  "requested_hash lib txhash =
     (case unhexlify txhash of
        Inl e \<Rightarrow> Inl e
      | Inr bs \<Rightarrow> uint256_from_str lib (rev bs))"

text \<open>
  The scan of lines 24 to 27, with the variable \<^verbatim>\<open>tx\<close> as accumulator. The right
  operand of \<^verbatim>\<open>and\<close> is evaluated only for an input that has a non-witness UTXO.
\<close>

fun find_tx :: "hwilib \<Rightarrow> string \<Rightarrow> PSBTInput list \<Rightarrow> CTransaction option
    \<Rightarrow> error + CTransaction option" where
  "find_tx lib txhash [] tx = Inr tx"
| "find_tx lib txhash (psbt_in # rest) tx =
     (case non_witness_utxo psbt_in of
        None \<Rightarrow> find_tx lib txhash rest tx
      | Some u \<Rightarrow>
          (case requested_hash lib txhash of
             Inl e \<Rightarrow> Inl e
           | Inr h \<Rightarrow>
               if sha256 u = h then find_tx lib txhash rest (Some u)
               else find_tx lib txhash rest tx))"

definition tx_input_of :: "hwilib \<Rightarrow> CTxIn \<Rightarrow> TxInputType" where
  "tx_input_of lib v =
     new_TxInputType
       \<lparr>prev_hash := Some (rev (ser_uint256 lib (out_hash (prevout v)))),
        prev_index := Some (out_n (prevout v)),
        script_sig := Some (scriptSig v),
        sequence := Some (nSequence v)\<rparr>"

definition bin_output_of :: "CTxOut \<Rightarrow> TxOutputBinType" where
  "bin_output_of v =
     new_TxOutputBinType \<lparr>b_amount := Some (nValue v), b_script_pubkey := Some (scriptPubKey v)\<rparr>"

definition transaction_type_of :: "hwilib \<Rightarrow> CTransaction \<Rightarrow> TransactionType" where
  "transaction_type_of lib tx =
     new_TransactionType
       \<lparr>version := Some (nVersion tx),
        lock_time := Some (nLockTime tx),
        t_inputs := map (tx_input_of lib) (vin tx),
        bin_outputs := map bin_output_of (vout tx)\<rparr>"

definition get_tx :: "hwilib \<Rightarrow> PSBT \<Rightarrow> string \<Rightarrow> error + TransactionType" where
  "get_tx lib psbt txhash =
     (case find_tx lib txhash (psbt_inputs psbt) None of
        Inl e \<Rightarrow> Inl e
      | Inr None \<Rightarrow> Inl (ValueError (''TX '' @ txhash @ '' not found in PSBT''))
      | Inr (Some tx) \<Rightarrow> Inr (transaction_type_of lib tx))"

subsection \<open>\<^verbatim>\<open>TrezorClient.sign_tx\<close>: preparing the inputs\<close>

text \<open>Lines 88 to 91 (set the input stuff).\<close>

definition set_input_stuff :: "hwilib \<Rightarrow> CTxIn \<Rightarrow> TxInputType \<Rightarrow> TxInputType" where
  "set_input_stuff lib txin t =
     t\<lparr>prev_hash := Some (rev (ser_uint256 lib (out_hash (prevout txin)))),
       prev_index := Some (out_n (prevout txin)),
       sequence := Some (nSequence txin)\<rparr>"

text \<open>Lines 93 to 101 (determine the spend type). There is no \<^verbatim>\<open>else\<close> branch.\<close>

definition determine_spend_type :: "hwilib \<Rightarrow> PSBTInput \<Rightarrow> TxInputType \<Rightarrow> TxInputType" where
  "determine_spend_type lib psbt_in t =
     (case non_witness_utxo psbt_in of
        Some u \<Rightarrow> t\<lparr>script_type := Some SPENDADDRESS\<rparr>
      | None \<Rightarrow>
          (case witness_utxo psbt_in of
             Some w \<Rightarrow>
               if is_p2sh lib w then t\<lparr>script_type := Some SPENDP2SHWITNESS\<rparr>
               else t\<lparr>script_type := Some SPENDWITNESS\<rparr>
           | None \<Rightarrow> t))"

text \<open>Lines 103 to 117 (check for one key).\<close>

definition check_for_1_key :: "int \<Rightarrow> PSBTInput \<Rightarrow> TxInputType \<Rightarrow> error + TxInputType" where
  "check_for_1_key master_fp psbt_in t =
     (if dict_len (hd_keypaths psbt_in) = 1 then
        (case py_index (dict_keys (hd_keypaths psbt_in)) 0 of
           Inl e \<Rightarrow> Inl e
         | Inr pubkey \<Rightarrow>
             (case dict_get (hd_keypaths psbt_in) pubkey of
                Inl e \<Rightarrow> Inl e
              | Inr v \<Rightarrow>
                  (case py_index v 0 of
                     Inl e \<Rightarrow> Inl e
                   | Inr fp \<Rightarrow>
                       (let keypath = drop 1 v
                        in if fp = master_fp then Inr (t\<lparr>address_n := Some keypath\<rparr>)
                           else Inr t))))
      else if dict_len (hd_keypaths psbt_in) > 1 then
        Inl (TypeError ''Cannot sign multisig yet'')
      else Inl (TypeError ''All inputs must have a key for this device''))"

text \<open>Lines 119 to 123 (set the amount). There is no \<^verbatim>\<open>else\<close> branch.\<close>

definition set_amount :: "PSBTInput \<Rightarrow> CTxIn \<Rightarrow> TxInputType \<Rightarrow> error + TxInputType" where
  "set_amount psbt_in txin t =
     (case non_witness_utxo psbt_in of
        Some u \<Rightarrow>
          (case py_index (vout u) (out_n (prevout txin)) of
             Inl e \<Rightarrow> Inl e
           | Inr out \<Rightarrow> Inr (t\<lparr>amount := Some (nValue out)\<rparr>))
      | None \<Rightarrow>
          (case witness_utxo psbt_in of
             Some w \<Rightarrow> Inr (t\<lparr>amount := Some (nValue w)\<rparr>)
           | None \<Rightarrow> Inr t))"

text \<open>The body of the loop of line 85, for one pair of \<^verbatim>\<open>zip(tx.inputs, tx.tx.vin)\<close>.\<close>

definition build_input :: "hwilib \<Rightarrow> int \<Rightarrow> PSBTInput \<Rightarrow> CTxIn \<Rightarrow> error + TxInputType" where
  "build_input lib master_fp psbt_in txin =
     (let t = determine_spend_type lib psbt_in (set_input_stuff lib txin new_TxInputType)
      in case check_for_1_key master_fp psbt_in t of
           Inl e \<Rightarrow> Inl e
         | Inr t' \<Rightarrow> set_amount psbt_in txin t')"

text \<open>The loop of line 85: the first exception ends it.\<close>

fun build_inputs :: "hwilib \<Rightarrow> int \<Rightarrow> (PSBTInput \<times> CTxIn) list \<Rightarrow> error + TxInputType list" where
  "build_inputs lib master_fp [] = Inr []"
| "build_inputs lib master_fp ((psbt_in, txin) # rest) =
     (case build_input lib master_fp psbt_in txin of
        Inl e \<Rightarrow> Inl e
      | Inr t \<Rightarrow>
          (case build_inputs lib master_fp rest of
             Inl e \<Rightarrow> Inl e
           | Inr ts \<Rightarrow> Inr (t # ts)))"

subsection \<open>\<^verbatim>\<open>TrezorClient.sign_tx\<close>: preparing the outputs\<close>

text \<open>Lines 128 to 136: the address version bytes and the bech32 prefix of the network.\<close>

definition p2pkh_version :: "bool \<Rightarrow> bytes" where
  "p2pkh_version is_testnet = (if is_testnet then [0x6f] else [0x00])"

definition p2sh_version :: "bool \<Rightarrow> bytes" where
  "p2sh_version is_testnet = (if is_testnet then [0xc4] else [0x05])"

definition bech32_hrp :: "bool \<Rightarrow> string" where
  "bech32_hrp is_testnet = (if is_testnet then ''tb'' else ''bc'')"

text \<open>The body of the loop of line 140.\<close>

definition build_output :: "hwilib \<Rightarrow> bool \<Rightarrow> CTxOut \<Rightarrow> error + TxOutputType" where
  "build_output lib is_testnet out =
     (let txoutput = new_TxOutputType\<lparr>o_amount := Some (nValue out),
                                      o_script_type := Some PAYTOADDRESS\<rparr>
      in if is_p2pkh lib out then
           Inr (txoutput\<lparr>o_address :=
                  Some (to_address lib (py_slice 3 23 (scriptPubKey out)) (p2pkh_version is_testnet))\<rparr>)
         else if is_p2sh lib out then
           Inr (txoutput\<lparr>o_address :=
                  Some (to_address lib (py_slice 2 22 (scriptPubKey out)) (p2sh_version is_testnet))\<rparr>)
         else
           (case is_witness lib out of
              (wit, ver, prog) \<Rightarrow>
                if wit then
                  Inr (txoutput\<lparr>o_address := Some (bech32_encode lib (bech32_hrp is_testnet) ver prog)\<rparr>)
                else Inl (TypeError ''Output is not an address'')))"

fun build_outputs :: "hwilib \<Rightarrow> bool \<Rightarrow> CTxOut list \<Rightarrow> error + TxOutputType list" where
  "build_outputs lib is_testnet [] = Inr []"
| "build_outputs lib is_testnet (out # rest) =
     (case build_output lib is_testnet out of
        Inl e \<Rightarrow> Inl e
      | Inr t \<Rightarrow>
          (case build_outputs lib is_testnet rest of
             Inl e \<Rightarrow> Inl e
           | Inr ts \<Rightarrow> Inr (t # ts)))"

text \<open>The arguments of the call \<^verbatim>\<open>self.client.sign_tx(...)\<close> of lines 161 and 163.\<close>

record sign_request =
  coin_name :: string
  req_inputs :: "TxInputType list"
  req_outputs :: "TxOutputType list"
  req_version :: int
  req_lock_time :: int

text \<open>Lines 83 to 163 up to the call: all the inputs, then all the outputs.\<close>

definition build_request :: "hwilib \<Rightarrow> int \<Rightarrow> bool \<Rightarrow> PSBT \<Rightarrow> error + sign_request" where
  "build_request lib master_fp is_testnet psbt =
     (case build_inputs lib master_fp (zip (psbt_inputs psbt) (vin (psbt_tx psbt))) of
        Inl e \<Rightarrow> Inl e
      | Inr ins \<Rightarrow>
          (case build_outputs lib is_testnet (vout (psbt_tx psbt)) of
             Inl e \<Rightarrow> Inl e
           | Inr outs \<Rightarrow>
               Inr \<lparr>coin_name = (if is_testnet then ''Testnet'' else ''Bitcoin''),
                    req_inputs = ins, req_outputs = outs,
                    req_version = nVersion (psbt_tx psbt),
                    req_lock_time = nLockTime (psbt_tx psbt)\<rparr>))"

subsection \<open>\<^verbatim>\<open>TrezorClient.sign_tx\<close>: the signatures\<close>

text \<open>
  The state of lines 165 to 173 between two inputs: the list \<^verbatim>\<open>signatures\<close>, which
  \<^verbatim>\<open>remove\<close> shortens in place, and the variable \<^verbatim>\<open>sig\<close>, which is unbound until
  the inner loop has run once and keeps its value from one input to the next.
\<close>

record merge_state =
  signatures :: "bytes list"
  sig_var :: "bytes option"

text \<open>
  Lines 167 to 173 for one input. The inner loop runs its body at most once (it ends in
  \<^verbatim>\<open>break\<close>), on the first pair of \<^verbatim>\<open>zip(psbt_in.hd_keypaths.keys(), signatures)\<close>,
  and not at all when that \<^verbatim>\<open>zip\<close> is empty.
\<close>

definition merge_input :: "int \<Rightarrow> PSBTInput \<Rightarrow> merge_state \<Rightarrow> error + PSBTInput \<times> merge_state" where
  "merge_input master_fp psbt_in st =
     (case zip (dict_keys (hd_keypaths psbt_in)) (signatures st) of
        [] \<Rightarrow>
          (case sig_var st of
             None \<Rightarrow> Inl UnboundLocalError
           | Some sig \<Rightarrow>
               (case list_remove sig (signatures st) of
                  Inl e \<Rightarrow> Inl e
                | Inr sigs' \<Rightarrow> Inr (psbt_in, st\<lparr>signatures := sigs'\<rparr>)))
      | (pubkey, sig) # _ \<Rightarrow>
          (case dict_get (hd_keypaths psbt_in) pubkey of
             Inl e \<Rightarrow> Inl e
           | Inr v \<Rightarrow>
               (case py_index v 0 of
                  Inl e \<Rightarrow> Inl e
                | Inr fp \<Rightarrow>
                    (let psbt_in' =
                           (if fp = master_fp then
                              psbt_in\<lparr>partial_sigs := dict_set (partial_sigs psbt_in) pubkey (sig @ [0x01])\<rparr>
                            else psbt_in)
                     in (case list_remove sig (signatures st) of
                           Inl e \<Rightarrow> Inl e
                         | Inr sigs' \<Rightarrow>
                             Inr (psbt_in', st\<lparr>signatures := sigs', sig_var := Some sig\<rparr>))))))"

text \<open>
  The loop of line 166. The result holds the exception that ended the loop, if any, the
  inputs as the loop left them (those after the failing one untouched) and the state.
\<close>

fun merge_signatures :: "int \<Rightarrow> PSBTInput list \<Rightarrow> merge_state
    \<Rightarrow> error option \<times> PSBTInput list \<times> merge_state" where
  "merge_signatures master_fp [] st = (None, [], st)"
| "merge_signatures master_fp (psbt_in # rest) st =
     (case merge_input master_fp psbt_in st of
        Inl e \<Rightarrow> (Some e, psbt_in # rest, st)
      | Inr (psbt_in', st') \<Rightarrow>
          (case merge_signatures master_fp rest st' of
             (r, rest', st'') \<Rightarrow> (r, psbt_in' # rest', st'')))"

subsection \<open>\<^verbatim>\<open>TrezorClient.sign_tx\<close>: the whole call\<close>

text \<open>
  The device behind \<^verbatim>\<open>self.client\<close>: what \<^verbatim>\<open>get_public_node([0])\<close> answers (the
  xpub of the node) and what \<^verbatim>\<open>sign_tx\<close> answers to a request, given the transaction API
  set by \<^verbatim>\<open>set_tx_api\<close> (the pair of the signatures and the serialized transaction).
\<close>

record trezor =
  get_public_node :: "int list \<Rightarrow> error + string"
  client_sign_tx :: "(string \<Rightarrow> error + TransactionType) \<Rightarrow> sign_request \<Rightarrow> error + bytes list \<times> bytes"

text \<open>
  What the caller observes: the value returned or the exception raised, the PSBT object
  as the call leaves it, and the signing requests sent to the device.
\<close>

record outcome =
  result :: "error + string"
  psbt_after :: PSBT
  rpc_calls :: "sign_request list"

definition sign_tx :: "hwilib \<Rightarrow> trezor \<Rightarrow> bool \<Rightarrow> PSBT \<Rightarrow> outcome" where
  "sign_tx lib client is_testnet tx =
     (case get_public_node client [0] of
        Inl e \<Rightarrow> \<lparr>result = Inl e, psbt_after = tx, rpc_calls = []\<rparr>
      | Inr xpub \<Rightarrow>
     (case get_xpub_fingerprint lib xpub of
        Inl e \<Rightarrow> \<lparr>result = Inl e, psbt_after = tx, rpc_calls = []\<rparr>
      | Inr master_fp \<Rightarrow>
     (case build_request lib master_fp is_testnet tx of
        Inl e \<Rightarrow> \<lparr>result = Inl e, psbt_after = tx, rpc_calls = []\<rparr>
      | Inr req \<Rightarrow>
     (case client_sign_tx client (get_tx lib tx) req of
        Inl e \<Rightarrow> \<lparr>result = Inl e, psbt_after = tx, rpc_calls = [req]\<rparr>
      | Inr signed_tx \<Rightarrow>
     (case merge_signatures master_fp (psbt_inputs tx)
             \<lparr>signatures = fst signed_tx, sig_var = None\<rparr> of
        (Some e, ins, st) \<Rightarrow>
          \<lparr>result = Inl e, psbt_after = tx\<lparr>psbt_inputs := ins\<rparr>, rpc_calls = [req]\<rparr>
      | (None, ins, st) \<Rightarrow>
          \<lparr>result = Inr (serialize lib (tx\<lparr>psbt_inputs := ins\<rparr>)),
           psbt_after = tx\<lparr>psbt_inputs := ins\<rparr>, rpc_calls = [req]\<rparr>)))))"

subsection \<open>Notions used in the statements\<close>

text \<open>
  An input whose first key entry carries a fingerprint: \<^verbatim>\<open>hd_keypaths\<close> is not empty
  and the value of its first key is not empty.
\<close>

definition keyed :: "PSBTInput \<Rightarrow> bool" where
  "keyed p = (case hd_keypaths p of (k, fp # path) # others \<Rightarrow> True | _ \<Rightarrow> False)"

text \<open>
  What lines 168 to 171 make of such an input when the signature at hand is \<open>sig\<close>: the
  signature, followed by the byte 1, is stored under the first key if the fingerprint of
  that key is the one of the device.
\<close>

definition signed_input :: "int \<Rightarrow> PSBTInput \<Rightarrow> bytes \<Rightarrow> PSBTInput" where
  "signed_input master_fp p sig =
     (case hd_keypaths p of
        (k, fp # path) # others \<Rightarrow>
          if fp = master_fp then p\<lparr>partial_sigs := dict_set (partial_sigs p) k (sig @ [0x01])\<rparr>
          else p
      | _ \<Rightarrow> p)"

subsection \<open>Sample values\<close>

text \<open>
  Modelled from the spec: hwilib/serializations.py, hwilib/base58.py and hwilib/bech32.py
  are not part of the sources at hand, so the sample inputs below come with one concrete
  choice of the helpers. The framing of a hash as a 256-bit value is little-endian over 32
  bytes; the script patterns are the ones whose payloads lie at bytes 3..23 (P2PKH), at
  bytes 2..22 (P2SH) and after a version byte and a length byte (witness); the address
  encoders and the serializer only render their arguments. The theorems of a claim never
  depend on this choice: it serves to evaluate the model on concrete inputs.
\<close>

definition le_bytes :: "nat \<Rightarrow> int \<Rightarrow> bytes" where
  "le_bytes k x = map (\<lambda>i. of_int (x div 256 ^ i)) [0..<k]"

fun le_value :: "bytes \<Rightarrow> int" where
  "le_value [] = 0"
| "le_value (b # bs) = uint b + 256 * le_value bs"

definition hex_of_nibble :: "nat \<Rightarrow> char" where
  "hex_of_nibble k = ''0123456789abcdef'' ! (k mod 16)"

definition hexlify :: "bytes \<Rightarrow> string" where
  "hexlify bs = concat (map (\<lambda>b. [hex_of_nibble (unat b div 16), hex_of_nibble (unat b)]) bs)"

definition sample_is_p2sh :: "CTxOut \<Rightarrow> bool" where
  "sample_is_p2sh out =
     (let s = scriptPubKey out
      in length s = 23 \<and> s ! 0 = 0xa9 \<and> s ! 1 = 0x14 \<and> s ! 22 = 0x87)"

definition sample_is_p2pkh :: "CTxOut \<Rightarrow> bool" where
  "sample_is_p2pkh out =
     (let s = scriptPubKey out
      in length s = 25 \<and> s ! 0 = 0x76 \<and> s ! 1 = 0xa9 \<and> s ! 2 = 0x14 \<and> s ! 23 = 0x88
         \<and> s ! 24 = 0xac)"

definition sample_is_witness :: "CTxOut \<Rightarrow> bool \<times> int \<times> bytes" where
  "sample_is_witness out =
     (let s = scriptPubKey out
      in if length s < 4 \<or> 42 < length s then (False, 0, [])
         else if s ! 0 \<noteq> 0 \<and> (s ! 0 < 0x51 \<or> 0x60 < s ! 0) then (False, 0, [])
         else if unat (s ! 1) + 2 = length s then
           (True, (if s ! 0 = 0 then 0 else uint (s ! 0) - 0x50), drop 2 s)
         else (False, 0, []))"

definition sample_lib :: hwilib where
  "sample_lib =
     \<lparr>ser_uint256 = le_bytes 32,
      uint256_from_str =
        (\<lambda>s. if length s < 32 then Inl (ExternalError ''struct.error'')
             else Inr (le_value (take 32 s))),
      get_xpub_fingerprint =
        (\<lambda>xpub. if xpub = ''xpub-of-this-device'' then Inr 0x5c9e228d
                else Inl (ValueError ''not an xpub'')),
      is_p2sh = sample_is_p2sh,
      is_p2pkh = sample_is_p2pkh,
      is_witness = sample_is_witness,
      to_address = (\<lambda>payload ver. ''base58check:'' @ hexlify (ver @ payload)),
      bech32_encode = (\<lambda>hrp ver prog. hrp @ ''1:'' @ hexlify (of_int ver # prog)),
      serialize = (\<lambda>psbt. concat (map (\<lambda>i. concat (map (\<lambda>(k, v). hexlify v @ '';'')
                     (partial_sigs i)) @ ''|'') (psbt_inputs psbt)))\<rparr>"

text \<open>Scripts: a P2PKH, a P2SH and a version-0 witness script over a 20-byte payload.\<close>

definition payload20 :: bytes where
  "payload20 = [1, 2, 3, 4, 5, 6, 7, 8, 9, 10, 11, 12, 13, 14, 15, 16, 17, 18, 19, 20]"

definition p2pkh_script :: bytes where
  "p2pkh_script = [0x76, 0xa9, 0x14] @ payload20 @ [0x88, 0xac]"

definition p2sh_script :: bytes where
  "p2sh_script = [0xa9, 0x14] @ payload20 @ [0x87]"

definition p2wpkh_script :: bytes where
  "p2wpkh_script = [0x00, 0x14] @ payload20"

definition op_return_script :: bytes where
  "op_return_script = [0x6a, 0x01, 0x00]"

text \<open>
  Two previous transactions that carry the same \<open>sha256\<close> and differ in their version,
  and the hexadecimal form of that hash.
\<close>

definition prev_a :: CTransaction where
  "prev_a =
     \<lparr>nVersion = 1,
      vin = [\<lparr>prevout = \<lparr>out_hash = 7, out_n = 0\<rparr>, scriptSig = [0x51], nSequence = 0xffffffff\<rparr>],
      vout = [\<lparr>nValue = 50000, scriptPubKey = p2pkh_script\<rparr>,
              \<lparr>nValue = 1200, scriptPubKey = p2sh_script\<rparr>],
      nLockTime = 0, sha256 = 0xab01\<rparr>"

definition prev_b :: CTransaction where
  "prev_b = prev_a\<lparr>nVersion := 2\<rparr>"

definition hash_ab01 :: string where
  "hash_ab01 = replicate 60 CHR ''0'' @ ''ab01''"

definition hash_cd02 :: string where
  "hash_cd02 = replicate 60 CHR ''0'' @ ''cd02''"

text \<open>Keys, fingerprints and signatures.\<close>

definition key_a :: bytes where "key_a = [0x02, 0xaa]"
definition key_b :: bytes where "key_b = [0x03, 0xbb]"
definition sig_1 :: bytes where "sig_1 = [0x30, 0x01]"
definition sig_2 :: bytes where "sig_2 = [0x30, 0x02]"
definition sig_3 :: bytes where "sig_3 = [0x30, 0x03]"

definition own_fp :: int where "own_fp = 0x5c9e228d"
definition other_fp :: int where "other_fp = 0x11223344"

text \<open>
  Inputs: a legacy one, a wrapped-segwit one and a native-segwit one that belong to the
  device, a native-segwit one of another device, one with two keys, one without a key
  and one without any UTXO.
\<close>

definition in_legacy :: PSBTInput where
  "in_legacy =
     \<lparr>non_witness_utxo = Some prev_a, witness_utxo = None,
      hd_keypaths = [(key_a, [own_fp, 44, 0, 0, 0, 5])], partial_sigs = []\<rparr>"

definition in_wrapped :: PSBTInput where
  "in_wrapped =
     \<lparr>non_witness_utxo = None,
      witness_utxo = Some \<lparr>nValue = 7000, scriptPubKey = p2sh_script\<rparr>,
      hd_keypaths = [(key_a, [own_fp, 49, 0, 0, 0, 1])], partial_sigs = []\<rparr>"

definition in_native :: PSBTInput where
  "in_native =
     \<lparr>non_witness_utxo = None,
      witness_utxo = Some \<lparr>nValue = 9000, scriptPubKey = p2wpkh_script\<rparr>,
      hd_keypaths = [(key_a, [own_fp, 84, 0, 0, 0, 2])], partial_sigs = []\<rparr>"

definition in_foreign :: PSBTInput where
  "in_foreign = in_native\<lparr>hd_keypaths := [(key_b, [other_fp, 84, 0, 0, 0, 3])]\<rparr>"

definition in_multisig :: PSBTInput where
  "in_multisig =
     in_native\<lparr>hd_keypaths := [(key_a, [own_fp, 84, 0]), (key_b, [other_fp, 84, 0])]\<rparr>"

definition in_no_key :: PSBTInput where
  "in_no_key = in_native\<lparr>hd_keypaths := []\<rparr>"

definition in_no_utxo :: PSBTInput where
  "in_no_utxo = in_native\<lparr>witness_utxo := None\<rparr>"

definition in_legacy_b :: PSBTInput where
  "in_legacy_b = in_legacy\<lparr>non_witness_utxo := Some prev_b\<rparr>"

definition txin_0 :: CTxIn where
  "txin_0 = \<lparr>prevout = \<lparr>out_hash = 0xab01, out_n = 0\<rparr>, scriptSig = [], nSequence = 0xfffffffe\<rparr>"

definition txin_1 :: CTxIn where
  "txin_1 = \<lparr>prevout = \<lparr>out_hash = 0xcd02, out_n = 1\<rparr>, scriptSig = [], nSequence = 0xfffffffe\<rparr>"

definition txin_2 :: CTxIn where
  "txin_2 = \<lparr>prevout = \<lparr>out_hash = 0xef03, out_n = 4\<rparr>, scriptSig = [], nSequence = 0xfffffffe\<rparr>"

definition sample_psbt :: "PSBTInput list \<Rightarrow> CTxIn list \<Rightarrow> bytes list \<Rightarrow> PSBT" where
  "sample_psbt ins txins scripts =
     \<lparr>psbt_tx = \<lparr>nVersion = 2, vin = txins,
                  vout = map (\<lambda>s. \<lparr>nValue = 50000, scriptPubKey = s\<rparr>) scripts,
                  nLockTime = 0, sha256 = 0\<rparr>,
      psbt_inputs = ins\<rparr>"

text \<open>
  A device that asks the transaction API for the previous transaction of every legacy
  input of a request, fails with the first exception of the API, and otherwise answers
  with the given signatures.
\<close>

fun resolve_prev_txs :: "(string \<Rightarrow> error + TransactionType) \<Rightarrow> TxInputType list \<Rightarrow> error option" where
  "resolve_prev_txs api [] = None"
| "resolve_prev_txs api (inp # rest) =
     (case (script_type inp, prev_hash inp) of
        (Some SPENDADDRESS, Some h) \<Rightarrow>
          (case api (hexlify h) of
             Inl e \<Rightarrow> Some e
           | Inr t \<Rightarrow> resolve_prev_txs api rest)
      | _ \<Rightarrow> resolve_prev_txs api rest)"

definition sample_trezor :: "bytes list \<Rightarrow> trezor" where
  "sample_trezor sigs =
     \<lparr>get_public_node = (\<lambda>path. Inr ''xpub-of-this-device''),
      client_sign_tx =
        (\<lambda>api req. case resolve_prev_txs api (req_inputs req) of
                      Some e \<Rightarrow> Inl e
                    | None \<Rightarrow> Inr (sigs, []))\<rparr>"

section \<open>Properties\<close>

subsection \<open>Python values\<close>

lemma list_remove_head: "list_remove s (s # ss) = Inr ss"
  by (simp add: list_remove_def)

lemma list_remove_Nil: "list_remove s [] = Inl (ValueError ''list.remove(x): x not in list'')"
  by (simp add: list_remove_def)

lemma dict_get_head: "dict_get ((k, v) # d) k = Inr v"
  by (simp add: dict_get_def)

lemma py_index_head: "py_index (x # xs) 0 = Inr x"
  by (simp add: py_index_def)

lemma py_index_Nil: "py_index [] i = Inl IndexError"
  by (simp add: py_index_def Let_def)

lemma py_index_error: "py_index xs i = Inl e \<Longrightarrow> e = IndexError"
  by (auto simp: py_index_def Let_def split: if_splits)

subsection \<open>The previous-transaction resolver\<close>

text \<open>
  When the requested hash decodes to \<open>h\<close>, the scan ends with the last embedded
  transaction whose \<open>sha256\<close> is \<open>h\<close>, or with its initial value when there is none.
\<close>

lemma find_tx_last:
  assumes "requested_hash lib txhash = Inr h"
  shows "find_tx lib txhash ins acc =
           Inr (case [u \<leftarrow> List.map_filter non_witness_utxo ins. sha256 u = h] of
                  [] \<Rightarrow> acc
                | m # ms \<Rightarrow> Some (last (m # ms)))"
  using assms
proof (induction ins arbitrary: acc)
  case Nil
  then show ?case by simp
next
  case (Cons p ps)
  show ?case
  proof (cases "non_witness_utxo p")
    case None
    then show ?thesis using Cons by simp
  next
    case (Some u)
    then show ?thesis using Cons
      by (simp split: list.splits)
  qed
qed

lemma set_matches:
  "set [u \<leftarrow> List.map_filter non_witness_utxo ins. sha256 u = h] =
     {u. (\<exists>p \<in> set ins. non_witness_utxo p = Some u) \<and> sha256 u = h}"
  by (induction ins) (auto split: option.splits)

lemma sign_tx_rpc_error:
  assumes "get_public_node client [0] = Inr xpub"
      and "get_xpub_fingerprint lib xpub = Inr master_fp"
      and "build_request lib master_fp is_testnet tx = Inr req"
      and "client_sign_tx client (get_tx lib tx) req = Inl e"
  shows "sign_tx lib client is_testnet tx = \<lparr>result = Inl e, psbt_after = tx, rpc_calls = [req]\<rparr>"
  using assms by (simp add: sign_tx_def)

text \<open>
  C5. Let the requested hash decode (after the reversal of its bytes) to \<open>h\<close>. If no
  input embeds a non-witness UTXO whose hash is \<open>h\<close>, \<open>get_tx\<close> raises the
  \<^verbatim>\<open>ValueError\<close> that names the hash. If some input does, \<open>get_tx\<close> returns the
  descriptor of such an embedded transaction: its version, its lock time, one input entry
  per \<open>vin\<close> (previous hash reversed, index, script, sequence) and one output entry per
  \<open>vout\<close> (amount, script). An exception that the device client raises during the
  signing request, as it does for one raised by the transaction API, ends \<open>sign_tx\<close>
  with that exception and with the PSBT as it was.
\<close>

theorem get_tx_resolves:
  assumes "requested_hash lib txhash = Inr h"
  shows "((\<forall>p \<in> set (psbt_inputs psbt). \<forall>u. non_witness_utxo p = Some u \<longrightarrow> sha256 u \<noteq> h) \<longrightarrow>
            get_tx lib psbt txhash = Inl (ValueError (''TX '' @ txhash @ '' not found in PSBT'')))
       \<and> ((\<exists>p \<in> set (psbt_inputs psbt). \<exists>u. non_witness_utxo p = Some u \<and> sha256 u = h) \<longrightarrow>
            (\<exists>p \<in> set (psbt_inputs psbt). \<exists>u. non_witness_utxo p = Some u \<and> sha256 u = h \<and>
               get_tx lib psbt txhash =
                 Inr \<lparr>version = Some (nVersion u), lock_time = Some (nLockTime u),
                      t_inputs = map (\<lambda>v. \<lparr>address_n = None,
                          prev_hash = Some (rev (ser_uint256 lib (out_hash (prevout v)))),
                          prev_index = Some (out_n (prevout v)),
                          script_sig = Some (scriptSig v),
                          sequence = Some (nSequence v),
                          script_type = None, amount = None\<rparr>) (vin u),
                      bin_outputs = map (\<lambda>v. \<lparr>b_amount = Some (nValue v),
                          b_script_pubkey = Some (scriptPubKey v)\<rparr>) (vout u)\<rparr>))
       \<and> (get_public_node client [0] = Inr xpub
            \<and> get_xpub_fingerprint lib xpub = Inr master_fp
            \<and> build_request lib master_fp is_testnet psbt = Inr req
            \<and> client_sign_tx client (get_tx lib psbt) req = Inl e \<longrightarrow>
            sign_tx lib client is_testnet psbt =
              \<lparr>result = Inl e, psbt_after = psbt, rpc_calls = [req]\<rparr>)"
proof (intro conjI impI)
  let ?ms = "[u \<leftarrow> List.map_filter non_witness_utxo (psbt_inputs psbt). sha256 u = h]"
  assume "\<forall>p \<in> set (psbt_inputs psbt). \<forall>u. non_witness_utxo p = Some u \<longrightarrow> sha256 u \<noteq> h"
  then have "set ?ms = {}" unfolding set_matches by blast
  then have "?ms = []" by simp
  then show "get_tx lib psbt txhash = Inl (ValueError (''TX '' @ txhash @ '' not found in PSBT''))"
    by (simp add: get_tx_def find_tx_last [OF assms])
next
  let ?ms = "[u \<leftarrow> List.map_filter non_witness_utxo (psbt_inputs psbt). sha256 u = h]"
  assume "\<exists>p \<in> set (psbt_inputs psbt). \<exists>u. non_witness_utxo p = Some u \<and> sha256 u = h"
  then have "set ?ms \<noteq> {}" unfolding set_matches by blast
  then have ne: "?ms \<noteq> []" by (simp only: set_empty simp_thms)
  then have "last ?ms \<in> set ?ms" by (rule last_in_set)
  then obtain p where p: "p \<in> set (psbt_inputs psbt)" "non_witness_utxo p = Some (last ?ms)"
      "sha256 (last ?ms) = h"
    unfolding set_matches by blast
  have "get_tx lib psbt txhash = Inr (transaction_type_of lib (last ?ms))"
    using ne by (simp add: get_tx_def find_tx_last [OF assms] split: list.splits)
  then have "get_tx lib psbt txhash =
                 Inr \<lparr>version = Some (nVersion (last ?ms)), lock_time = Some (nLockTime (last ?ms)),
                      t_inputs = map (\<lambda>v. \<lparr>address_n = None,
                          prev_hash = Some (rev (ser_uint256 lib (out_hash (prevout v)))),
                          prev_index = Some (out_n (prevout v)),
                          script_sig = Some (scriptSig v),
                          sequence = Some (nSequence v),
                          script_type = None, amount = None\<rparr>) (vin (last ?ms)),
                      bin_outputs = map (\<lambda>v. \<lparr>b_amount = Some (nValue v),
                          b_script_pubkey = Some (scriptPubKey v)\<rparr>) (vout (last ?ms))\<rparr>"
    by (simp add: transaction_type_of_def new_TransactionType_def tx_input_of_def
        new_TxInputType_def bin_output_of_def new_TxOutputBinType_def)
  with p show "\<exists>p \<in> set (psbt_inputs psbt). \<exists>u. non_witness_utxo p = Some u \<and> sha256 u = h \<and>
               get_tx lib psbt txhash =
                 Inr \<lparr>version = Some (nVersion u), lock_time = Some (nLockTime u),
                      t_inputs = map (\<lambda>v. \<lparr>address_n = None,
                          prev_hash = Some (rev (ser_uint256 lib (out_hash (prevout v)))),
                          prev_index = Some (out_n (prevout v)),
                          script_sig = Some (scriptSig v),
                          sequence = Some (nSequence v),
                          script_type = None, amount = None\<rparr>) (vin u),
                      bin_outputs = map (\<lambda>v. \<lparr>b_amount = Some (nValue v),
                          b_script_pubkey = Some (scriptPubKey v)\<rparr>) (vout u)\<rparr>"
    by blast
next
  assume "get_public_node client [0] = Inr xpub
            \<and> get_xpub_fingerprint lib xpub = Inr master_fp
            \<and> build_request lib master_fp is_testnet psbt = Inr req
            \<and> client_sign_tx client (get_tx lib psbt) req = Inl e"
  then show "sign_tx lib client is_testnet psbt =
              \<lparr>result = Inl e, psbt_after = psbt, rpc_calls = [req]\<rparr>"
    by (simp add: sign_tx_rpc_error)
qed

theorem get_tx_resolves_witness:
  "requested_hash sample_lib hash_cd02 = Inr 0xcd02
   \<and> get_tx sample_lib (sample_psbt [in_legacy, in_native] [txin_1, txin_0] [p2pkh_script]) hash_cd02 =
       Inl (ValueError (''TX '' @ hash_cd02 @ '' not found in PSBT''))
   \<and> requested_hash sample_lib hash_ab01 = Inr 0xab01
   \<and> get_tx sample_lib (sample_psbt [in_legacy, in_native] [txin_1, txin_0] [p2pkh_script]) hash_ab01 =
       Inr \<lparr>version = Some 1, lock_time = Some 0,
            t_inputs = [\<lparr>address_n = None, prev_hash = Some (replicate 31 0 @ [7]),
                         prev_index = Some 0, script_sig = Some [0x51],
                         sequence = Some 0xffffffff, script_type = None, amount = None\<rparr>],
            bin_outputs = [\<lparr>b_amount = Some 50000, b_script_pubkey = Some p2pkh_script\<rparr>,
                           \<lparr>b_amount = Some 1200, b_script_pubkey = Some p2sh_script\<rparr>]\<rparr>
   \<and> sign_tx sample_lib (sample_trezor [sig_1, sig_2]) False
         (sample_psbt [in_legacy, in_native] [txin_1, txin_0] [p2pkh_script]) =
       \<lparr>result = Inl (ValueError (''TX '' @ hash_cd02 @ '' not found in PSBT'')),
        psbt_after = sample_psbt [in_legacy, in_native] [txin_1, txin_0] [p2pkh_script],
        rpc_calls = [projr (build_request sample_lib own_fp False
                       (sample_psbt [in_legacy, in_native] [txin_1, txin_0] [p2pkh_script]))]\<rparr>"
proof -
  let ?psbt = "sample_psbt [in_legacy, in_native] [txin_1, txin_0] [p2pkh_script]"
  let ?req = "projr (build_request sample_lib own_fp False ?psbt)"
  have h1: "requested_hash sample_lib hash_cd02 = Inr 0xcd02" by code_simp
  have h2: "requested_hash sample_lib hash_ab01 = Inr 0xab01" by code_simp
  have none: "\<forall>p \<in> set (psbt_inputs ?psbt). \<forall>u. non_witness_utxo p = Some u \<longrightarrow> sha256 u \<noteq> 0xcd02"
    by (simp add: sample_psbt_def in_legacy_def in_native_def prev_a_def)
  have some: "\<exists>p \<in> set (psbt_inputs ?psbt). \<exists>u. non_witness_utxo p = Some u \<and> sha256 u = 0xab01"
    by (simp add: sample_psbt_def in_legacy_def in_native_def prev_a_def)
  have pn: "get_public_node (sample_trezor [sig_1, sig_2]) [0] = Inr ''xpub-of-this-device''"
    by (simp add: sample_trezor_def)
  have fp: "get_xpub_fingerprint sample_lib ''xpub-of-this-device'' = Inr own_fp"
    by (simp add: sample_lib_def own_fp_def)
  have "\<not> isl (build_request sample_lib own_fp False ?psbt)" by code_simp
  then have req: "build_request sample_lib own_fp False ?psbt = Inr ?req" by simp
  have rpc: "client_sign_tx (sample_trezor [sig_1, sig_2]) (get_tx sample_lib ?psbt) ?req =
       Inl (ValueError (''TX '' @ hash_cd02 @ '' not found in PSBT''))"
    by code_simp
  note a = get_tx_resolves [OF h1, of ?psbt "sample_trezor [sig_1, sig_2]" "''xpub-of-this-device''"
      own_fp False ?req "ValueError (''TX '' @ hash_cd02 @ '' not found in PSBT'')"]
  note b = get_tx_resolves [OF h2, of ?psbt]
  have c1: "get_tx sample_lib ?psbt hash_cd02 =
       Inl (ValueError (''TX '' @ hash_cd02 @ '' not found in PSBT''))"
    using a none by blast
  have c3: "sign_tx sample_lib (sample_trezor [sig_1, sig_2]) False ?psbt =
       \<lparr>result = Inl (ValueError (''TX '' @ hash_cd02 @ '' not found in PSBT'')),
        psbt_after = ?psbt, rpc_calls = [?req]\<rparr>"
    using a pn fp req rpc by blast
  from b some obtain p u where pu: "p \<in> set (psbt_inputs ?psbt)" "non_witness_utxo p = Some u"
      "get_tx sample_lib ?psbt hash_ab01 =
                 Inr \<lparr>version = Some (nVersion u), lock_time = Some (nLockTime u),
                      t_inputs = map (\<lambda>v. \<lparr>address_n = None,
                          prev_hash = Some (rev (ser_uint256 sample_lib (out_hash (prevout v)))),
                          prev_index = Some (out_n (prevout v)),
                          script_sig = Some (scriptSig v),
                          sequence = Some (nSequence v),
                          script_type = None, amount = None\<rparr>) (vin u),
                      bin_outputs = map (\<lambda>v. \<lparr>b_amount = Some (nValue v),
                          b_script_pubkey = Some (scriptPubKey v)\<rparr>) (vout u)\<rparr>"
    by blast
  from pu(1,2) have u: "u = prev_a"
    by (auto simp: sample_psbt_def in_legacy_def in_native_def)
  have le: "rev (ser_uint256 sample_lib 7) = replicate 31 0 @ [7]" by code_simp
  have c2: "get_tx sample_lib ?psbt hash_ab01 =
       Inr \<lparr>version = Some 1, lock_time = Some 0,
            t_inputs = [\<lparr>address_n = None, prev_hash = Some (replicate 31 0 @ [7]),
                         prev_index = Some 0, script_sig = Some [0x51],
                         sequence = Some 0xffffffff, script_type = None, amount = None\<rparr>],
            bin_outputs = [\<lparr>b_amount = Some 50000, b_script_pubkey = Some p2pkh_script\<rparr>,
                           \<lparr>b_amount = Some 1200, b_script_pubkey = Some p2sh_script\<rparr>]\<rparr>"
    unfolding pu(3) u using le by (simp add: prev_a_def)
  from h1 c1 h2 c2 c3 show ?thesis by blast
qed

text \<open>
  C9. When several inputs embed a transaction with the requested hash, \<open>get_tx\<close> answers
  with the last of them in the order of the inputs.
\<close>

theorem get_tx_last_match:
  assumes "requested_hash lib txhash = Inr h"
      and "[u \<leftarrow> List.map_filter non_witness_utxo (psbt_inputs psbt). sha256 u = h] \<noteq> []"
  shows "get_tx lib psbt txhash =
           Inr (transaction_type_of lib
                  (last [u \<leftarrow> List.map_filter non_witness_utxo (psbt_inputs psbt). sha256 u = h]))"
  using assms(2) by (simp add: get_tx_def find_tx_last [OF assms(1)] split: list.splits)

theorem get_tx_last_match_witness:
  "requested_hash sample_lib hash_ab01 = Inr 0xab01
   \<and> [u \<leftarrow> List.map_filter non_witness_utxo
          (psbt_inputs (sample_psbt [in_legacy, in_native, in_legacy_b] [txin_0, txin_1, txin_0] [])).
        sha256 u = 0xab01] = [prev_a, prev_b]
   \<and> get_tx sample_lib (sample_psbt [in_legacy, in_native, in_legacy_b] [txin_0, txin_1, txin_0] [])
         hash_ab01 = Inr (transaction_type_of sample_lib prev_b)
   \<and> version (transaction_type_of sample_lib prev_b) = Some 2
   \<and> version (transaction_type_of sample_lib prev_a) = Some 1"
proof -
  let ?psbt = "sample_psbt [in_legacy, in_native, in_legacy_b] [txin_0, txin_1, txin_0] []"
  have h: "requested_hash sample_lib hash_ab01 = Inr 0xab01" by code_simp
  have ms: "[u \<leftarrow> List.map_filter non_witness_utxo (psbt_inputs ?psbt). sha256 u = 0xab01] =
      [prev_a, prev_b]"
    by (simp add: sample_psbt_def in_legacy_def in_native_def in_legacy_b_def prev_a_def prev_b_def)
  then have ne: "[u \<leftarrow> List.map_filter non_witness_utxo (psbt_inputs ?psbt). sha256 u = 0xab01] \<noteq> []"
    by simp
  have v: "version (transaction_type_of sample_lib prev_b) = Some 2"
      "version (transaction_type_of sample_lib prev_a) = Some 1"
    by (simp_all add: transaction_type_of_def new_TransactionType_def prev_a_def prev_b_def)
  from get_tx_last_match [OF h ne] ms h v show ?thesis by simp
qed

subsection \<open>The signature merger\<close>

lemma keyedE:
  assumes "keyed p"
  obtains k fp path others where "hd_keypaths p = (k, fp # path) # others"
  using assms by (auto simp: keyed_def neq_Nil_conv split: list.splits prod.splits)

lemma merge_input_keyed:
  assumes "hd_keypaths p = (k, fp # path) # others" and "signatures st = s # rest"
  shows "merge_input master_fp p st =
           Inr (if fp = master_fp
                then p\<lparr>partial_sigs := dict_set (partial_sigs p) k (s @ [0x01])\<rparr> else p,
                st\<lparr>signatures := rest, sig_var := Some s\<rparr>)"
  using assms
  by (simp add: merge_input_def dict_keys_def dict_get_head py_index_head list_remove_head)

lemma merge_input_exhausted:
  assumes "signatures st = []"
  shows "merge_input master_fp p st =
           Inl (case sig_var st of None \<Rightarrow> UnboundLocalError
                | Some s \<Rightarrow> ValueError ''list.remove(x): x not in list'')"
  using assms
  by (simp add: merge_input_def list_remove_Nil split: option.splits)

text \<open>
  With fewer signatures than inputs the loop ends in an exception: the list is empty when
  the turn of some input comes.
\<close>

lemma merge_signatures_short:
  assumes "\<forall>p \<in> set ins. keyed p" and "length (signatures st) < length ins"
  shows "\<exists>ins' st'. merge_signatures master_fp ins st =
           (Some (if signatures st = [] \<and> sig_var st = None then UnboundLocalError
                  else ValueError ''list.remove(x): x not in list''), ins', st')"
  using assms
proof (induction ins arbitrary: st)
  case Nil
  then show ?case by simp
next
  case (Cons p ps)
  show ?case
  proof (cases "signatures st")
    case Nil
    then show ?thesis
      by (cases "sig_var st") (simp_all add: merge_input_exhausted)
  next
    case sg: (Cons s rest)
    from Cons.prems(1) have "keyed p" by simp
    then obtain k fp path others where kp: "hd_keypaths p = (k, fp # path) # others"
      by (rule keyedE)
    let ?st = "st\<lparr>signatures := rest, sig_var := Some s\<rparr>"
    have "\<exists>ins' st'. merge_signatures master_fp ps ?st =
           (Some (if signatures ?st = [] \<and> sig_var ?st = None then UnboundLocalError
                  else ValueError ''list.remove(x): x not in list''), ins', st')"
      using Cons.prems sg by (intro Cons.IH) auto
    then show ?thesis
      using sg by (auto simp: merge_input_keyed [OF kp sg])
  qed
qed

text \<open>
  With at least as many signatures as inputs, the input at position \<open>i\<close> meets the
  signature at position \<open>i\<close>, and the signatures beyond the inputs stay in the list.
\<close>

lemma merge_signatures_enough:
  assumes "\<forall>p \<in> set ins. keyed p" and "length ins \<le> length (signatures st)"
  shows "\<exists>st'. merge_signatures master_fp ins st =
           (None, map2 (signed_input master_fp) ins (signatures st), st') \<and>
           signatures st' = drop (length ins) (signatures st)"
  using assms
proof (induction ins arbitrary: st)
  case Nil
  then show ?case by simp
next
  case (Cons p ps)
  from Cons.prems(2) obtain s rest where sg: "signatures st = s # rest"
    by (cases "signatures st") auto
  from Cons.prems(1) have "keyed p" by simp
  then obtain k fp path others where kp: "hd_keypaths p = (k, fp # path) # others"
    by (rule keyedE)
  let ?st = "st\<lparr>signatures := rest, sig_var := Some s\<rparr>"
  have "\<exists>st'. merge_signatures master_fp ps ?st =
           (None, map2 (signed_input master_fp) ps (signatures ?st), st') \<and>
           signatures st' = drop (length ps) (signatures ?st)"
    using Cons.prems sg by (intro Cons.IH) auto
  then show ?case
    using sg by (auto simp: merge_input_keyed [OF kp sg] signed_input_def kp)
qed

text \<open>
  C10. An input whose first key entry carries a fingerprint takes the signature at the
  front of the list, whether or not the fingerprint is the one of the device: the
  signature is stored only for the device's fingerprint and removed in both cases. So
  after an input of another device, the next input of this device receives the second
  signature.
\<close>

theorem merge_input_consumes:
  assumes "hd_keypaths psbt_in = (pubkey, fp # path) # others"
      and "signatures st = sig # rest"
  shows "merge_input master_fp psbt_in st =
           Inr (if fp = master_fp
                then psbt_in\<lparr>partial_sigs := dict_set (partial_sigs psbt_in) pubkey (sig @ [0x01])\<rparr>
                else psbt_in,
                st\<lparr>signatures := rest, sig_var := Some sig\<rparr>)
       \<and> (fp \<noteq> master_fp \<and> hd_keypaths next_in = (pubkey', master_fp # path') # others'
            \<and> rest = sig' # rest' \<longrightarrow>
            merge_signatures master_fp [psbt_in, next_in] st =
              (None,
               [psbt_in,
                next_in\<lparr>partial_sigs := dict_set (partial_sigs next_in) pubkey' (sig' @ [0x01])\<rparr>],
               st\<lparr>signatures := rest', sig_var := Some sig'\<rparr>))"
proof (intro conjI impI)
  show first: "merge_input master_fp psbt_in st =
           Inr (if fp = master_fp
                then psbt_in\<lparr>partial_sigs := dict_set (partial_sigs psbt_in) pubkey (sig @ [0x01])\<rparr>
                else psbt_in,
                st\<lparr>signatures := rest, sig_var := Some sig\<rparr>)"
    using assms by (rule merge_input_keyed)
  assume a: "fp \<noteq> master_fp \<and> hd_keypaths next_in = (pubkey', master_fp # path') # others'
            \<and> rest = sig' # rest'"
  let ?st = "st\<lparr>signatures := rest, sig_var := Some sig\<rparr>"
  from a have "signatures ?st = sig' # rest'" by simp
  with a have "merge_input master_fp next_in ?st =
      Inr (next_in\<lparr>partial_sigs := dict_set (partial_sigs next_in) pubkey' (sig' @ [0x01])\<rparr>,
           ?st\<lparr>signatures := rest', sig_var := Some sig'\<rparr>)"
    by (simp add: merge_input_keyed)
  with first a show "merge_signatures master_fp [psbt_in, next_in] st =
              (None,
               [psbt_in,
                next_in\<lparr>partial_sigs := dict_set (partial_sigs next_in) pubkey' (sig' @ [0x01])\<rparr>],
               st\<lparr>signatures := rest', sig_var := Some sig'\<rparr>)"
    by simp
qed

theorem merge_input_consumes_witness:
  "hd_keypaths in_foreign = (key_b, other_fp # [84, 0, 0, 0, 3]) # []
   \<and> other_fp \<noteq> own_fp
   \<and> hd_keypaths in_native = (key_a, own_fp # [84, 0, 0, 0, 2]) # []
   \<and> merge_input own_fp in_foreign \<lparr>signatures = [sig_1, sig_2, sig_3], sig_var = None\<rparr> =
       Inr (in_foreign, \<lparr>signatures = [sig_2, sig_3], sig_var = Some sig_1\<rparr>)
   \<and> merge_signatures own_fp [in_foreign, in_native]
         \<lparr>signatures = [sig_1, sig_2, sig_3], sig_var = None\<rparr> =
       (None,
        [in_foreign, in_native\<lparr>partial_sigs := [(key_a, sig_2 @ [0x01])]\<rparr>],
        \<lparr>signatures = [sig_3], sig_var = Some sig_2\<rparr>)"
proof -
  let ?st = "\<lparr>signatures = [sig_1, sig_2, sig_3], sig_var = None\<rparr>"
  have k1: "hd_keypaths in_foreign = (key_b, other_fp # [84, 0, 0, 0, 3]) # []"
    by (simp add: in_foreign_def in_native_def)
  have k2: "hd_keypaths in_native = (key_a, own_fp # [84, 0, 0, 0, 2]) # []"
    by (simp add: in_native_def)
  have ne: "other_fp \<noteq> own_fp" by (simp add: other_fp_def own_fp_def)
  have sg: "signatures ?st = sig_1 # [sig_2, sig_3]" by simp
  have ps: "partial_sigs in_native = []" by (simp add: in_native_def)
  from merge_input_consumes [OF k1 sg, of own_fp in_native key_a "[84, 0, 0, 0, 2]" "[]" sig_2 "[sig_3]"]
    k1 k2 ne ps
  show ?thesis by (simp add: dict_set_def del: merge_signatures.simps)
qed

subsection \<open>The request builder: inputs\<close>

lemma check_for_1_key_single:
  assumes "hd_keypaths p = [(k, fp # path)]"
  shows "check_for_1_key master_fp p t =
           Inr (if fp = master_fp then t\<lparr>address_n := Some path\<rparr> else t)"
  using assms
  by (simp add: check_for_1_key_def dict_len_def dict_keys_def py_index_head dict_get_head)

lemma check_for_1_key_many:
  "1 < dict_len (hd_keypaths p) \<Longrightarrow>
     check_for_1_key master_fp p t = Inl (TypeError ''Cannot sign multisig yet'')"
  by (simp add: check_for_1_key_def)

lemma check_for_1_key_none:
  "dict_len (hd_keypaths p) = 0 \<Longrightarrow>
     check_for_1_key master_fp p t = Inl (TypeError ''All inputs must have a key for this device'')"
  by (simp add: check_for_1_key_def)

lemma script_type_set_amount:
  "set_amount p txin t = Inr t' \<Longrightarrow> script_type t' = script_type t \<and> address_n t' = address_n t"
  by (auto simp: set_amount_def split: option.splits sum.splits)

lemma check_for_1_key_fields:
  "check_for_1_key master_fp p t = Inr t' \<Longrightarrow> script_type t' = script_type t \<and> amount t' = amount t"
  by (auto simp: check_for_1_key_def Let_def split: if_splits sum.splits)

lemma script_type_determine:
  "script_type (determine_spend_type lib p t) =
     (case non_witness_utxo p of
        Some u \<Rightarrow> Some SPENDADDRESS
      | None \<Rightarrow>
          (case witness_utxo p of
             Some w \<Rightarrow> Some (if is_p2sh lib w then SPENDP2SHWITNESS else SPENDWITNESS)
           | None \<Rightarrow> script_type t))"
  by (simp add: determine_spend_type_def split: option.splits)

lemma build_input_stages:
  assumes "build_input lib master_fp p txin = Inr t"
  obtains t1 where
    "check_for_1_key master_fp p
       (determine_spend_type lib p (set_input_stuff lib txin new_TxInputType)) = Inr t1"
    "set_amount p txin t1 = Inr t"
  using assms by (auto simp: build_input_def Let_def split: sum.splits)

lemma check_for_1_key_ok:
  assumes "check_for_1_key master_fp p t = Inr t'"
  shows "\<exists>k fp path. hd_keypaths p = [(k, fp # path)]"
proof -
  from assms have len: "length (hd_keypaths p) = 1"
    by (auto simp: check_for_1_key_def dict_len_def split: if_splits)
  then obtain k v where kv: "hd_keypaths p = [(k, v)]"
    by (cases "hd_keypaths p") auto
  with assms have "v \<noteq> []"
    by (auto simp: check_for_1_key_def dict_len_def dict_keys_def py_index_head dict_get_head
        py_index_Nil)
  with kv show ?thesis by (cases v) auto
qed

lemma build_input_keyed:
  assumes "build_input lib master_fp p txin = Inr t"
  shows "keyed p"
proof -
  from assms obtain t0 t1 where "check_for_1_key master_fp p t0 = Inr t1"
    by (auto simp: build_input_def Let_def split: sum.splits)
  from check_for_1_key_ok [OF this] show ?thesis by (auto simp: keyed_def)
qed

lemma build_inputs_keyed:
  assumes "build_inputs lib master_fp prs = Inr ts"
  shows "\<forall>p \<in> set (map fst prs). keyed p"
  using assms
proof (induction prs arbitrary: ts)
  case Nil
  then show ?case by simp
next
  case (Cons pr prs)
  obtain p txin where pr: "pr = (p, txin)" by (cases pr)
  from Cons.prems pr obtain t ts' where t: "build_input lib master_fp p txin = Inr t"
      and ts': "build_inputs lib master_fp prs = Inr ts'"
    by (auto split: sum.splits)
  from build_input_keyed [OF t] Cons.IH [OF ts'] pr show ?case by simp
qed

lemma build_request_keyed:
  assumes "build_request lib master_fp is_testnet tx = Inr req"
      and "length (psbt_inputs tx) \<le> length (vin (psbt_tx tx))"
  shows "\<forall>p \<in> set (psbt_inputs tx). keyed p"
proof -
  from assms(1) obtain ts where
    "build_inputs lib master_fp (zip (psbt_inputs tx) (vin (psbt_tx tx))) = Inr ts"
    by (auto simp: build_request_def split: sum.splits)
  from build_inputs_keyed [OF this] have
    "\<forall>p \<in> set (map fst (zip (psbt_inputs tx) (vin (psbt_tx tx)))). keyed p" .
  moreover have "map fst (zip (psbt_inputs tx) (vin (psbt_tx tx))) = psbt_inputs tx"
    using assms(2) by (simp add: map_fst_zip_take)
  ultimately show ?thesis by simp
qed

lemma build_inputs_first_error:
  assumes "i < length prs"
      and "\<forall>j<i. \<exists>t. build_input lib master_fp (fst (prs ! j)) (snd (prs ! j)) = Inr t"
      and "build_input lib master_fp (fst (prs ! i)) (snd (prs ! i)) = Inl e"
  shows "build_inputs lib master_fp prs = Inl e"
  using assms
proof (induction prs arbitrary: i)
  case Nil
  then show ?case by simp
next
  case (Cons pr prs)
  obtain p txin where pr: "pr = (p, txin)" by (cases pr)
  show ?case
  proof (cases i)
    case 0
    with Cons.prems pr show ?thesis by simp
  next
    case (Suc i')
    from Cons.prems(2) Suc obtain t where t: "build_input lib master_fp p txin = Inr t"
      using pr by fastforce
    have "build_inputs lib master_fp prs = Inl e"
    proof (rule Cons.IH [of i'])
      show "i' < length prs" using Cons.prems(1) Suc by simp
      show "\<forall>j<i'. \<exists>t. build_input lib master_fp (fst (prs ! j)) (snd (prs ! j)) = Inr t"
        using Cons.prems(2) Suc by fastforce
      show "build_input lib master_fp (fst (prs ! i')) (snd (prs ! i')) = Inl e"
        using Cons.prems(3) Suc by simp
    qed
    with t pr show ?thesis by simp
  qed
qed

lemma build_inputs_some_error:
  assumes "i < length prs"
      and "build_input lib master_fp (fst (prs ! i)) (snd (prs ! i)) = Inl e"
  shows "\<exists>e'. build_inputs lib master_fp prs = Inl e'"
  using assms
proof (induction prs arbitrary: i)
  case Nil
  then show ?case by simp
next
  case (Cons pr prs)
  obtain p txin where pr: "pr = (p, txin)" by (cases pr)
  show ?case
  proof (cases i)
    case 0
    with Cons.prems pr show ?thesis by simp
  next
    case (Suc i')
    with Cons.prems have "\<exists>e'. build_inputs lib master_fp prs = Inl e'"
      by (intro Cons.IH [of i']) simp_all
    with pr show ?thesis by (auto split: sum.splits)
  qed
qed

lemma sign_tx_build_error:
  assumes "get_public_node client [0] = Inr xpub"
      and "get_xpub_fingerprint lib xpub = Inr master_fp"
      and "build_request lib master_fp is_testnet tx = Inl e"
  shows "sign_tx lib client is_testnet tx = \<lparr>result = Inl e, psbt_after = tx, rpc_calls = []\<rparr>"
  using assms by (simp add: sign_tx_def)

lemma build_request_inputs_error:
  "build_inputs lib master_fp (zip (psbt_inputs tx) (vin (psbt_tx tx))) = Inl e \<Longrightarrow>
     build_request lib master_fp is_testnet tx = Inl e"
  by (simp add: build_request_def)

lemma sign_tx_inputs_fail:
  assumes "\<And>master_fp. \<exists>e. build_inputs lib master_fp (zip (psbt_inputs tx) (vin (psbt_tx tx))) = Inl e"
  shows "\<exists>e. sign_tx lib client is_testnet tx = \<lparr>result = Inl e, psbt_after = tx, rpc_calls = []\<rparr>"
proof (cases "get_public_node client [0]")
  case (Inl e)
  then show ?thesis by (simp add: sign_tx_def)
next
  case (Inr xpub)
  show ?thesis
  proof (cases "get_xpub_fingerprint lib xpub")
    case (Inl e)
    with Inr show ?thesis by (simp add: sign_tx_def)
  next
    case fp: (Inr master_fp)
    from assms obtain e where
      "build_inputs lib master_fp (zip (psbt_inputs tx) (vin (psbt_tx tx))) = Inl e" by blast
    then have "build_request lib master_fp is_testnet tx = Inl e"
      by (rule build_request_inputs_error)
    from sign_tx_build_error [OF Inr fp this] show ?thesis by blast
  qed
qed


text \<open>
  C2 (as amended). Whenever the builder produces the descriptor of an input, its script
  type is \<open>SPENDADDRESS\<close> if the input has a non-witness UTXO, otherwise
  \<open>SPENDP2SHWITNESS\<close> if it has a witness UTXO whose script is P2SH, otherwise
  \<open>SPENDWITNESS\<close> if it has a witness UTXO, and otherwise it is unset. An input with
  neither UTXO raises no exception of its own: with a single key entry its descriptor is
  produced, without a script type and without an amount.
\<close>

theorem build_input_script_type:
  "(\<forall>t. build_input lib master_fp psbt_in txin = Inr t \<longrightarrow>
      script_type t =
        (case non_witness_utxo psbt_in of
           Some u \<Rightarrow> Some SPENDADDRESS
         | None \<Rightarrow>
             (case witness_utxo psbt_in of
                Some w \<Rightarrow> Some (if is_p2sh lib w then SPENDP2SHWITNESS else SPENDWITNESS)
              | None \<Rightarrow> None)))
   \<and> (\<forall>k fp path. non_witness_utxo psbt_in = None \<and> witness_utxo psbt_in = None
         \<and> hd_keypaths psbt_in = [(k, fp # path)] \<longrightarrow>
         (\<exists>t. build_input lib master_fp psbt_in txin = Inr t \<and> script_type t = None
               \<and> amount t = None))"
proof (intro conjI allI impI)
  fix t assume "build_input lib master_fp psbt_in txin = Inr t"
  then obtain t1 where
    t1: "check_for_1_key master_fp psbt_in
       (determine_spend_type lib psbt_in (set_input_stuff lib txin new_TxInputType)) = Inr t1"
    and t: "set_amount psbt_in txin t1 = Inr t"
    by (rule build_input_stages)
  have "script_type t = script_type
          (determine_spend_type lib psbt_in (set_input_stuff lib txin new_TxInputType))"
    using script_type_set_amount [OF t] check_for_1_key_fields [OF t1] by simp
  then show "script_type t =
        (case non_witness_utxo psbt_in of
           Some u \<Rightarrow> Some SPENDADDRESS
         | None \<Rightarrow>
             (case witness_utxo psbt_in of
                Some w \<Rightarrow> Some (if is_p2sh lib w then SPENDP2SHWITNESS else SPENDWITNESS)
              | None \<Rightarrow> None))"
    by (simp add: script_type_determine set_input_stuff_def new_TxInputType_def
        split: option.splits)
next
  fix k fp path
  assume "non_witness_utxo psbt_in = None \<and> witness_utxo psbt_in = None
         \<and> hd_keypaths psbt_in = [(k, fp # path)]"
  then show "\<exists>t. build_input lib master_fp psbt_in txin = Inr t \<and> script_type t = None
               \<and> amount t = None"
    by (simp add: build_input_def check_for_1_key_single determine_spend_type_def
        set_amount_def set_input_stuff_def new_TxInputType_def Let_def)
qed

theorem build_input_script_type_counterexample:
  "non_witness_utxo in_no_utxo = None \<and> witness_utxo in_no_utxo = None
   \<and> build_input sample_lib own_fp in_no_utxo txin_0 =
       Inr \<lparr>address_n = Some [84, 0, 0, 0, 2],
            prev_hash = Some (replicate 30 0 @ [0xab, 0x01]),
            prev_index = Some 0, script_sig = None, sequence = Some 0xfffffffe,
            script_type = None, amount = None\<rparr>"
  by code_simp

theorem build_input_script_type_witness:
  "build_input sample_lib own_fp in_legacy txin_0 =
     Inr (projr (build_input sample_lib own_fp in_legacy txin_0))
   \<and> script_type (projr (build_input sample_lib own_fp in_legacy txin_0)) = Some SPENDADDRESS
   \<and> build_input sample_lib own_fp in_wrapped txin_0 =
     Inr (projr (build_input sample_lib own_fp in_wrapped txin_0))
   \<and> script_type (projr (build_input sample_lib own_fp in_wrapped txin_0)) = Some SPENDP2SHWITNESS
   \<and> build_input sample_lib own_fp in_native txin_0 =
     Inr (projr (build_input sample_lib own_fp in_native txin_0))
   \<and> script_type (projr (build_input sample_lib own_fp in_native txin_0)) = Some SPENDWITNESS
   \<and> hd_keypaths in_no_utxo = [(key_a, own_fp # [84, 0, 0, 0, 2])]
   \<and> build_input sample_lib own_fp in_no_utxo txin_0 =
     Inr (projr (build_input sample_lib own_fp in_no_utxo txin_0))
   \<and> script_type (projr (build_input sample_lib own_fp in_no_utxo txin_0)) = None
   \<and> amount (projr (build_input sample_lib own_fp in_no_utxo txin_0)) = None"
proof -
  have ok: "\<not> isl (build_input sample_lib own_fp in_legacy txin_0)"
      "\<not> isl (build_input sample_lib own_fp in_wrapped txin_0)"
      "\<not> isl (build_input sample_lib own_fp in_native txin_0)"
    by code_simp+
  then have r: "build_input sample_lib own_fp in_legacy txin_0 =
        Inr (projr (build_input sample_lib own_fp in_legacy txin_0))"
      "build_input sample_lib own_fp in_wrapped txin_0 =
        Inr (projr (build_input sample_lib own_fp in_wrapped txin_0))"
      "build_input sample_lib own_fp in_native txin_0 =
        Inr (projr (build_input sample_lib own_fp in_native txin_0))"
    by simp_all
  have u: "non_witness_utxo in_legacy = Some prev_a"
      "non_witness_utxo in_wrapped = None"
      "witness_utxo in_wrapped = Some \<lparr>nValue = 7000, scriptPubKey = p2sh_script\<rparr>"
      "non_witness_utxo in_native = None"
      "witness_utxo in_native = Some \<lparr>nValue = 9000, scriptPubKey = p2wpkh_script\<rparr>"
      "non_witness_utxo in_no_utxo = None" "witness_utxo in_no_utxo = None"
      "hd_keypaths in_no_utxo = [(key_a, own_fp # [84, 0, 0, 0, 2])]"
    by (simp_all add: in_legacy_def in_wrapped_def in_native_def in_no_utxo_def)
  have p: "is_p2sh sample_lib \<lparr>nValue = 7000, scriptPubKey = p2sh_script\<rparr>"
      "\<not> is_p2sh sample_lib \<lparr>nValue = 9000, scriptPubKey = p2wpkh_script\<rparr>"
    by code_simp+
  note t1 = build_input_script_type [of sample_lib own_fp in_legacy txin_0, THEN conjunct1,
      rule_format, OF r(1)]
  note t2 = build_input_script_type [of sample_lib own_fp in_wrapped txin_0, THEN conjunct1,
      rule_format, OF r(2)]
  note t3 = build_input_script_type [of sample_lib own_fp in_native txin_0, THEN conjunct1,
      rule_format, OF r(3)]
  from build_input_script_type [of sample_lib own_fp in_no_utxo txin_0, THEN conjunct2,
      rule_format, of key_a own_fp "[84, 0, 0, 0, 2]"] u
  obtain t where t: "build_input sample_lib own_fp in_no_utxo txin_0 = Inr t"
      "script_type t = None" "amount t = None"
    by blast
  from t have t4: "build_input sample_lib own_fp in_no_utxo txin_0 =
     Inr (projr (build_input sample_lib own_fp in_no_utxo txin_0))"
     "script_type (projr (build_input sample_lib own_fp in_no_utxo txin_0)) = None"
     "amount (projr (build_input sample_lib own_fp in_no_utxo txin_0)) = None"
    by simp_all
  from t1 t2 t3 t4 r u p show ?thesis by simp
qed

text \<open>
  C3. For an input that is paired with a transaction input, more than one key entry makes
  the builder raise the \<^verbatim>\<open>TypeError\<close> of multisig and no key entry makes it raise the
  \<^verbatim>\<open>TypeError\<close> of the missing key. In both cases the whole call ends with an
  exception, the PSBT unchanged and no signing request sent; the exception is the one of
  this input when the inputs before it are built without one.
\<close>

theorem key_count_errors:
  assumes "i < length (psbt_inputs tx)" and "i < length (vin (psbt_tx tx))"
  shows "(1 < dict_len (hd_keypaths (psbt_inputs tx ! i)) \<longrightarrow>
            build_input lib master_fp (psbt_inputs tx ! i) (vin (psbt_tx tx) ! i) =
              Inl (TypeError ''Cannot sign multisig yet''))
       \<and> (dict_len (hd_keypaths (psbt_inputs tx ! i)) = 0 \<longrightarrow>
            build_input lib master_fp (psbt_inputs tx ! i) (vin (psbt_tx tx) ! i) =
              Inl (TypeError ''All inputs must have a key for this device''))
       \<and> (dict_len (hd_keypaths (psbt_inputs tx ! i)) \<noteq> 1 \<longrightarrow>
            (\<exists>e. sign_tx lib client is_testnet tx =
                   \<lparr>result = Inl e, psbt_after = tx, rpc_calls = []\<rparr>))
       \<and> (dict_len (hd_keypaths (psbt_inputs tx ! i)) \<noteq> 1
            \<and> get_public_node client [0] = Inr xpub
            \<and> get_xpub_fingerprint lib xpub = Inr master_fp
            \<and> (\<forall>j<i. \<exists>t. build_input lib master_fp (psbt_inputs tx ! j) (vin (psbt_tx tx) ! j) = Inr t) \<longrightarrow>
            sign_tx lib client is_testnet tx =
              \<lparr>result = Inl (TypeError (if 1 < dict_len (hd_keypaths (psbt_inputs tx ! i))
                                         then ''Cannot sign multisig yet''
                                         else ''All inputs must have a key for this device'')),
               psbt_after = tx, rpc_calls = []\<rparr>)"
proof -
  let ?p = "psbt_inputs tx ! i" and ?txin = "vin (psbt_tx tx) ! i"
  let ?prs = "zip (psbt_inputs tx) (vin (psbt_tx tx))"
  have many: "build_input lib fp ?p ?txin = Inl (TypeError ''Cannot sign multisig yet'')"
    if "1 < dict_len (hd_keypaths ?p)" for fp
    using that by (simp add: build_input_def check_for_1_key_many)
  have none: "build_input lib fp ?p ?txin =
      Inl (TypeError ''All inputs must have a key for this device'')"
    if "dict_len (hd_keypaths ?p) = 0" for fp
    using that by (simp add: build_input_def check_for_1_key_none)
  have either: "build_input lib fp ?p ?txin =
      Inl (TypeError (if 1 < dict_len (hd_keypaths ?p) then ''Cannot sign multisig yet''
                      else ''All inputs must have a key for this device''))"
    if "dict_len (hd_keypaths ?p) \<noteq> 1" for fp
    using that many [of fp] none [of fp] by (cases "1 < dict_len (hd_keypaths ?p)") auto
  have len: "i < length ?prs" using assms by simp
  have nth: "fst (?prs ! i) = ?p" "snd (?prs ! i) = ?txin" using assms by simp_all
  have abort: "\<exists>e. sign_tx lib client is_testnet tx =
                   \<lparr>result = Inl e, psbt_after = tx, rpc_calls = []\<rparr>"
    if ne: "dict_len (hd_keypaths ?p) \<noteq> 1"
  proof (rule sign_tx_inputs_fail)
    fix fp
    show "\<exists>e. build_inputs lib fp ?prs = Inl e"
      using build_inputs_some_error [OF len, of lib fp] either [OF ne, of fp] nth by simp
  qed
  have exact: "sign_tx lib client is_testnet tx =
              \<lparr>result = Inl (TypeError (if 1 < dict_len (hd_keypaths ?p)
                                         then ''Cannot sign multisig yet''
                                         else ''All inputs must have a key for this device'')),
               psbt_after = tx, rpc_calls = []\<rparr>"
    if ne: "dict_len (hd_keypaths ?p) \<noteq> 1"
      and pn: "get_public_node client [0] = Inr xpub"
      and fp: "get_xpub_fingerprint lib xpub = Inr master_fp"
      and before: "\<forall>j<i. \<exists>t. build_input lib master_fp (psbt_inputs tx ! j) (vin (psbt_tx tx) ! j) = Inr t"
  proof -
    have "\<forall>j<i. \<exists>t. build_input lib master_fp (fst (?prs ! j)) (snd (?prs ! j)) = Inr t"
      using before assms by simp
    from build_inputs_first_error [OF len this] either [OF ne, of master_fp] nth
    have "build_inputs lib master_fp ?prs =
      Inl (TypeError (if 1 < dict_len (hd_keypaths ?p) then ''Cannot sign multisig yet''
                      else ''All inputs must have a key for this device''))"
      by simp
    then have "build_request lib master_fp is_testnet tx =
      Inl (TypeError (if 1 < dict_len (hd_keypaths ?p) then ''Cannot sign multisig yet''
                      else ''All inputs must have a key for this device''))"
      by (rule build_request_inputs_error)
    from sign_tx_build_error [OF pn fp this] show ?thesis .
  qed
  from many none abort exact show ?thesis by blast
qed

theorem key_count_errors_witness:
  "build_input sample_lib own_fp in_multisig txin_1 = Inl (TypeError ''Cannot sign multisig yet'')
   \<and> build_input sample_lib own_fp in_no_key txin_1 =
       Inl (TypeError ''All inputs must have a key for this device'')
   \<and> sign_tx sample_lib (sample_trezor [sig_1, sig_2]) False
         (sample_psbt [in_native, in_multisig] [txin_0, txin_1] [p2pkh_script]) =
       \<lparr>result = Inl (TypeError ''Cannot sign multisig yet''),
        psbt_after = sample_psbt [in_native, in_multisig] [txin_0, txin_1] [p2pkh_script],
        rpc_calls = []\<rparr>
   \<and> sign_tx sample_lib (sample_trezor [sig_1, sig_2]) False
         (sample_psbt [in_native, in_no_key] [txin_0, txin_1] [p2pkh_script]) =
       \<lparr>result = Inl (TypeError ''All inputs must have a key for this device''),
        psbt_after = sample_psbt [in_native, in_no_key] [txin_0, txin_1] [p2pkh_script],
        rpc_calls = []\<rparr>"
proof -
  let ?c = "sample_trezor [sig_1, sig_2]"
  let ?m = "sample_psbt [in_native, in_multisig] [txin_0, txin_1] [p2pkh_script]"
  let ?z = "sample_psbt [in_native, in_no_key] [txin_0, txin_1] [p2pkh_script]"
  have lm: "1 < length (psbt_inputs ?m)" "1 < length (vin (psbt_tx ?m))"
    and lz: "1 < length (psbt_inputs ?z)" "1 < length (vin (psbt_tx ?z))"
    by (simp_all add: sample_psbt_def)
  have nm: "psbt_inputs ?m ! 1 = in_multisig" "vin (psbt_tx ?m) ! 1 = txin_1"
      "psbt_inputs ?m ! 0 = in_native" "vin (psbt_tx ?m) ! 0 = txin_0"
    and nz: "psbt_inputs ?z ! 1 = in_no_key" "vin (psbt_tx ?z) ! 1 = txin_1"
      "psbt_inputs ?z ! 0 = in_native" "vin (psbt_tx ?z) ! 0 = txin_0"
    by (simp_all add: sample_psbt_def)
  have dm: "dict_len (hd_keypaths in_multisig) = 2"
    and dz: "dict_len (hd_keypaths in_no_key) = 0"
    by (simp_all add: dict_len_def in_multisig_def in_no_key_def in_native_def)
  have pn: "get_public_node ?c [0] = Inr ''xpub-of-this-device''"
    by (simp add: sample_trezor_def)
  have fp: "get_xpub_fingerprint sample_lib ''xpub-of-this-device'' = Inr own_fp"
    by (simp add: sample_lib_def own_fp_def)
  have "\<not> isl (build_input sample_lib own_fp in_native txin_0)" by code_simp
  then have b0: "\<exists>t. build_input sample_lib own_fp in_native txin_0 = Inr t"
    by (cases "build_input sample_lib own_fp in_native txin_0") auto
  have before_m: "\<forall>j<1. \<exists>t. build_input sample_lib own_fp (psbt_inputs ?m ! j) (vin (psbt_tx ?m) ! j) = Inr t"
    using b0 nm by simp
  have before_z: "\<forall>j<1. \<exists>t. build_input sample_lib own_fp (psbt_inputs ?z ! j) (vin (psbt_tx ?z) ! j) = Inr t"
    using b0 nz by simp
  note m = key_count_errors [OF lm, of sample_lib own_fp ?c False "''xpub-of-this-device''"]
  note z = key_count_errors [OF lz, of sample_lib own_fp ?c False "''xpub-of-this-device''"]
  have m1: "build_input sample_lib own_fp in_multisig txin_1 = Inl (TypeError ''Cannot sign multisig yet'')"
    using m dm nm by simp
  have z1: "build_input sample_lib own_fp in_no_key txin_1 =
       Inl (TypeError ''All inputs must have a key for this device'')"
    using z dz nz by simp
  have m2: "sign_tx sample_lib ?c False ?m =
       \<lparr>result = Inl (TypeError ''Cannot sign multisig yet''), psbt_after = ?m, rpc_calls = []\<rparr>"
    using m [THEN conjunct2, THEN conjunct2, THEN conjunct2] dm nm(1) pn fp before_m by simp
  have z2: "sign_tx sample_lib ?c False ?z =
       \<lparr>result = Inl (TypeError ''All inputs must have a key for this device''),
        psbt_after = ?z, rpc_calls = []\<rparr>"
    using z [THEN conjunct2, THEN conjunct2, THEN conjunct2] dz nz(1) pn fp before_z by simp
  from m1 z1 m2 z2 show ?thesis by blast
qed

subsection \<open>The number of signatures\<close>

text \<open>
  C1 (as amended). Let the request be built and answered by the device, for a PSBT that
  has no more inputs than its transaction. With fewer signatures than inputs the call ends
  with an exception: \<^verbatim>\<open>UnboundLocalError\<close> when no signature came back, the
  \<^verbatim>\<open>ValueError\<close> of \<^verbatim>\<open>list.remove\<close> otherwise. With at least as many signatures as
  inputs the call succeeds: the input at position \<open>i\<close> meets the signature at position
  \<open>i\<close> and the signatures beyond the inputs are left unused.
\<close>

theorem sign_tx_signature_count:
  assumes "get_public_node client [0] = Inr xpub"
      and "get_xpub_fingerprint lib xpub = Inr master_fp"
      and "build_request lib master_fp is_testnet tx = Inr req"
      and "client_sign_tx client (get_tx lib tx) req = Inr (sigs, raw)"
      and "length (psbt_inputs tx) \<le> length (vin (psbt_tx tx))"
  shows "(length sigs < length (psbt_inputs tx) \<longrightarrow>
            result (sign_tx lib client is_testnet tx) =
              Inl (if sigs = [] then UnboundLocalError
                   else ValueError ''list.remove(x): x not in list''))
       \<and> (length (psbt_inputs tx) \<le> length sigs \<longrightarrow>
            sign_tx lib client is_testnet tx =
              \<lparr>result = Inr (serialize lib
                   (tx\<lparr>psbt_inputs := map2 (signed_input master_fp) (psbt_inputs tx) sigs\<rparr>)),
               psbt_after = tx\<lparr>psbt_inputs := map2 (signed_input master_fp) (psbt_inputs tx) sigs\<rparr>,
               rpc_calls = [req]\<rparr>)"
proof (intro conjI impI)
  let ?st = "\<lparr>signatures = sigs, sig_var = None\<rparr>"
  have keyed: "\<forall>p \<in> set (psbt_inputs tx). keyed p"
    using build_request_keyed [OF assms(3) assms(5)] .
  {
    assume "length sigs < length (psbt_inputs tx)"
    then have "length (signatures ?st) < length (psbt_inputs tx)" by simp
    from merge_signatures_short [OF keyed this, of master_fp]
    obtain ins' st' where "merge_signatures master_fp (psbt_inputs tx) ?st =
           (Some (if sigs = [] then UnboundLocalError
                  else ValueError ''list.remove(x): x not in list''), ins', st')"
      by auto
    then show "result (sign_tx lib client is_testnet tx) =
              Inl (if sigs = [] then UnboundLocalError
                   else ValueError ''list.remove(x): x not in list'')"
      using assms(1-4) by (simp add: sign_tx_def)
  next
    assume "length (psbt_inputs tx) \<le> length sigs"
    then have "length (psbt_inputs tx) \<le> length (signatures ?st)" by simp
    from merge_signatures_enough [OF keyed this, of master_fp]
    obtain st' where "merge_signatures master_fp (psbt_inputs tx) ?st =
           (None, map2 (signed_input master_fp) (psbt_inputs tx) sigs, st')"
      by auto
    then show "sign_tx lib client is_testnet tx =
              \<lparr>result = Inr (serialize lib
                   (tx\<lparr>psbt_inputs := map2 (signed_input master_fp) (psbt_inputs tx) sigs\<rparr>)),
               psbt_after = tx\<lparr>psbt_inputs := map2 (signed_input master_fp) (psbt_inputs tx) sigs\<rparr>,
               rpc_calls = [req]\<rparr>"
      using assms(1-4) by (simp add: sign_tx_def)
  }
qed

theorem sign_tx_signature_count_counterexample:
  "length (psbt_inputs (sample_psbt [in_native] [txin_0] [p2pkh_script])) = 1
   \<and> length [sig_1, sig_2] = 2
   \<and> result (sign_tx sample_lib (sample_trezor [sig_1, sig_2]) False
               (sample_psbt [in_native] [txin_0] [p2pkh_script])) = Inr ''300101;|''
   \<and> psbt_after (sign_tx sample_lib (sample_trezor [sig_1, sig_2]) False
                   (sample_psbt [in_native] [txin_0] [p2pkh_script])) =
       sample_psbt [in_native\<lparr>partial_sigs := [(key_a, sig_1 @ [0x01])]\<rparr>] [txin_0] [p2pkh_script]"
  by code_simp

theorem sign_tx_signature_count_witness:
  "length [sig_1, sig_2] < length (psbt_inputs
       (sample_psbt [in_native, in_wrapped, in_legacy] [txin_0, txin_1, txin_0] [p2pkh_script]))
   \<and> result (sign_tx sample_lib (sample_trezor [sig_1, sig_2]) False
       (sample_psbt [in_native, in_wrapped, in_legacy] [txin_0, txin_1, txin_0] [p2pkh_script])) =
       Inl (ValueError ''list.remove(x): x not in list'')
   \<and> result (sign_tx sample_lib (sample_trezor []) False
       (sample_psbt [in_native, in_wrapped, in_legacy] [txin_0, txin_1, txin_0] [p2pkh_script])) =
       Inl UnboundLocalError
   \<and> psbt_after (sign_tx sample_lib (sample_trezor [sig_1, sig_2, sig_3]) False
       (sample_psbt [in_native, in_foreign] [txin_0, txin_1] [p2pkh_script])) =
       sample_psbt [in_native\<lparr>partial_sigs := [(key_a, sig_1 @ [0x01])]\<rparr>, in_foreign]
         [txin_0, txin_1] [p2pkh_script]"
proof -
  let ?p3 = "sample_psbt [in_native, in_wrapped, in_legacy] [txin_0, txin_1, txin_0] [p2pkh_script]"
  let ?p2 = "sample_psbt [in_native, in_foreign] [txin_0, txin_1] [p2pkh_script]"
  let ?r3 = "projr (build_request sample_lib own_fp False ?p3)"
  let ?r2 = "projr (build_request sample_lib own_fp False ?p2)"
  have pn: "get_public_node (sample_trezor sigs) [0] = Inr ''xpub-of-this-device''" for sigs
    by (simp add: sample_trezor_def)
  have fp: "get_xpub_fingerprint sample_lib ''xpub-of-this-device'' = Inr own_fp"
    by (simp add: sample_lib_def own_fp_def)
  have "\<not> isl (build_request sample_lib own_fp False ?p3)" by code_simp
  then have r3: "build_request sample_lib own_fp False ?p3 = Inr ?r3" by simp
  have "\<not> isl (build_request sample_lib own_fp False ?p2)" by code_simp
  then have r2: "build_request sample_lib own_fp False ?p2 = Inr ?r2" by simp
  have a3: "client_sign_tx (sample_trezor [sig_1, sig_2]) (get_tx sample_lib ?p3) ?r3 =
      Inr ([sig_1, sig_2], [])"
    by code_simp
  have a0: "client_sign_tx (sample_trezor []) (get_tx sample_lib ?p3) ?r3 = Inr ([], [])"
    by code_simp
  have a2: "client_sign_tx (sample_trezor [sig_1, sig_2, sig_3]) (get_tx sample_lib ?p2) ?r2 =
      Inr ([sig_1, sig_2, sig_3], [])"
    by code_simp
  have l3: "length (psbt_inputs ?p3) \<le> length (vin (psbt_tx ?p3))"
    and l2: "length (psbt_inputs ?p2) \<le> length (vin (psbt_tx ?p2))"
    by (simp_all add: sample_psbt_def)
  have n3: "length (psbt_inputs ?p3) = 3" and n2: "length (psbt_inputs ?p2) = 2"
    by (simp_all add: sample_psbt_def)
  have c1: "result (sign_tx sample_lib (sample_trezor [sig_1, sig_2]) False ?p3) =
       Inl (ValueError ''list.remove(x): x not in list'')"
    using sign_tx_signature_count [OF pn fp r3 a3 l3] n3 by simp
  have c2: "result (sign_tx sample_lib (sample_trezor []) False ?p3) = Inl UnboundLocalError"
    using sign_tx_signature_count [OF pn fp r3 a0 l3] n3 by simp
  have m2: "map2 (signed_input own_fp) (psbt_inputs ?p2) [sig_1, sig_2, sig_3] =
      [in_native\<lparr>partial_sigs := [(key_a, sig_1 @ [0x01])]\<rparr>, in_foreign]"
    by (simp add: sample_psbt_def signed_input_def in_native_def in_foreign_def dict_set_def
        own_fp_def other_fp_def)
  have c3: "psbt_after (sign_tx sample_lib (sample_trezor [sig_1, sig_2, sig_3]) False ?p2) =
       sample_psbt [in_native\<lparr>partial_sigs := [(key_a, sig_1 @ [0x01])]\<rparr>, in_foreign]
         [txin_0, txin_1] [p2pkh_script]"
    using sign_tx_signature_count [OF pn fp r2 a2 l2] n2 m2 by (simp add: sample_psbt_def)
  from c1 c2 c3 n3 show ?thesis by simp
qed

subsection \<open>The request builder: derivation path and amount\<close>

lemma set_amount_error:
  "set_amount p txin t = Inl e \<Longrightarrow> e = IndexError \<and> non_witness_utxo p \<noteq> None"
  by (auto simp: set_amount_def split: option.splits sum.splits dest: py_index_error)

lemma set_amount_fields:
  "set_amount p txin t = Inr t' \<Longrightarrow> prev_index t' = prev_index t"
  by (auto simp: set_amount_def split: option.splits sum.splits)

text \<open>
  C4. For an input with exactly one key entry, made of a fingerprint and a path: the key
  step raises nothing and sets the derivation path if and only if the fingerprint is the
  one of the device, to the stored path without the fingerprint. So every descriptor built
  for an input with another fingerprint has no derivation path, and the only exception the
  builder can raise on such an input is the \<^verbatim>\<open>IndexError\<close> of the amount of a legacy
  input.
\<close>

theorem build_input_address_n:
  assumes "hd_keypaths psbt_in = [(pubkey, fp # path)]"
  shows "check_for_1_key master_fp psbt_in t =
           Inr (if fp = master_fp then t\<lparr>address_n := Some path\<rparr> else t)
       \<and> (build_input lib master_fp psbt_in txin = Inr d \<longrightarrow>
            address_n d = (if fp = master_fp then Some path else None))
       \<and> (build_input lib master_fp psbt_in txin = Inl e \<longrightarrow>
            e = IndexError \<and> non_witness_utxo psbt_in \<noteq> None)
       \<and> (non_witness_utxo psbt_in = None \<longrightarrow>
            (\<exists>d. build_input lib master_fp psbt_in txin = Inr d))"
proof (intro conjI impI)
  let ?t = "determine_spend_type lib psbt_in (set_input_stuff lib txin new_TxInputType)"
  let ?k = "if fp = master_fp then ?t\<lparr>address_n := Some path\<rparr> else ?t"
  show "check_for_1_key master_fp psbt_in t =
           Inr (if fp = master_fp then t\<lparr>address_n := Some path\<rparr> else t)"
    using assms by (rule check_for_1_key_single)
  have b: "build_input lib master_fp psbt_in txin = set_amount psbt_in txin ?k"
    by (simp add: build_input_def Let_def check_for_1_key_single [OF assms])
  have unset: "address_n ?t = None"
    by (simp add: determine_spend_type_def set_input_stuff_def new_TxInputType_def
        split: option.splits)
  {
    assume "build_input lib master_fp psbt_in txin = Inr d"
    with b have "set_amount psbt_in txin ?k = Inr d" by simp
    from script_type_set_amount [OF this] have "address_n d = address_n ?k" by simp
    with unset show "address_n d = (if fp = master_fp then Some path else None)" by simp
  next
    assume "build_input lib master_fp psbt_in txin = Inl e"
    with b have "set_amount psbt_in txin ?k = Inl e" by simp
    from set_amount_error [OF this] show "e = IndexError" and "non_witness_utxo psbt_in \<noteq> None"
      by simp_all
  next
    assume "non_witness_utxo psbt_in = None"
    then show "\<exists>d. build_input lib master_fp psbt_in txin = Inr d"
      unfolding b by (simp add: set_amount_def split: option.splits)
  }
qed

theorem build_input_address_n_witness:
  "hd_keypaths in_foreign = [(key_b, other_fp # [84, 0, 0, 0, 3])]
   \<and> other_fp \<noteq> own_fp
   \<and> build_input sample_lib own_fp in_foreign txin_1 =
       Inr \<lparr>address_n = None, prev_hash = Some (replicate 30 0 @ [0xcd, 0x02]),
            prev_index = Some 1, script_sig = None, sequence = Some 0xfffffffe,
            script_type = Some SPENDWITNESS, amount = Some 9000\<rparr>
   \<and> address_n (projr (build_input sample_lib own_fp in_foreign txin_1)) = None
   \<and> hd_keypaths in_native = [(key_a, own_fp # [84, 0, 0, 0, 2])]
   \<and> address_n (projr (build_input sample_lib own_fp in_native txin_1)) = Some [84, 0, 0, 0, 2]
   \<and> hd_keypaths in_legacy = [(key_a, own_fp # [44, 0, 0, 0, 5])]
   \<and> build_input sample_lib own_fp in_legacy txin_2 = Inl IndexError"
proof -
  have kf: "hd_keypaths in_foreign = [(key_b, other_fp # [84, 0, 0, 0, 3])]"
    and kn: "hd_keypaths in_native = [(key_a, own_fp # [84, 0, 0, 0, 2])]"
    and kl: "hd_keypaths in_legacy = [(key_a, own_fp # [44, 0, 0, 0, 5])]"
    by (simp_all add: in_foreign_def in_native_def in_legacy_def)
  have ne: "other_fp \<noteq> own_fp" by (simp add: other_fp_def own_fp_def)
  have bf: "build_input sample_lib own_fp in_foreign txin_1 =
       Inr \<lparr>address_n = None, prev_hash = Some (replicate 30 0 @ [0xcd, 0x02]),
            prev_index = Some 1, script_sig = None, sequence = Some 0xfffffffe,
            script_type = Some SPENDWITNESS, amount = Some 9000\<rparr>"
    by code_simp
  have "\<not> isl (build_input sample_lib own_fp in_native txin_1)" by code_simp
  then have bn: "build_input sample_lib own_fp in_native txin_1 =
      Inr (projr (build_input sample_lib own_fp in_native txin_1))" by simp
  have bl: "isl (build_input sample_lib own_fp in_legacy txin_2)" by code_simp
  then have bl': "build_input sample_lib own_fp in_legacy txin_2 =
      Inl (projl (build_input sample_lib own_fp in_legacy txin_2))" by simp
  note f = build_input_address_n [OF kf, of own_fp _ sample_lib txin_1
      "projr (build_input sample_lib own_fp in_foreign txin_1)"]
  note n = build_input_address_n [OF kn, of own_fp _ sample_lib txin_1
      "projr (build_input sample_lib own_fp in_native txin_1)"]
  note l = build_input_address_n [OF kl, of own_fp _ sample_lib txin_2 _
      "projl (build_input sample_lib own_fp in_legacy txin_2)"]
  have c1: "address_n (projr (build_input sample_lib own_fp in_foreign txin_1)) = None"
    using f bf ne by simp
  have c2: "address_n (projr (build_input sample_lib own_fp in_native txin_1)) = Some [84, 0, 0, 0, 2]"
    using n bn by simp
  have c3: "build_input sample_lib own_fp in_legacy txin_2 = Inl IndexError"
    using l bl' by simp
  from kf kn kl ne bf c1 c2 c3 show ?thesis by simp
qed

text \<open>
  C6. Whenever the builder produces the descriptor of an input: if the input has a
  non-witness UTXO, the amount is the value of the output of that transaction at the index
  of the spent outpoint, which is also the \<open>prev_index\<close> of the descriptor; if it has
  none and has a witness UTXO, the amount is the value of the witness UTXO.
\<close>

theorem build_input_amount:
  assumes "build_input lib master_fp psbt_in txin = Inr t"
  shows "(\<forall>u. non_witness_utxo psbt_in = Some u \<longrightarrow>
            prev_index t = Some (out_n (prevout txin))
            \<and> (\<exists>out. py_index (vout u) (out_n (prevout txin)) = Inr out
                      \<and> amount t = Some (nValue out)))
       \<and> (\<forall>w. non_witness_utxo psbt_in = None \<and> witness_utxo psbt_in = Some w \<longrightarrow>
            amount t = Some (nValue w))"
proof -
  from assms obtain t1 where
    t1: "check_for_1_key master_fp psbt_in
       (determine_spend_type lib psbt_in (set_input_stuff lib txin new_TxInputType)) = Inr t1"
    and t: "set_amount psbt_in txin t1 = Inr t"
    by (rule build_input_stages)
  have "prev_index t1 = Some (out_n (prevout txin))"
    using t1
    by (auto simp: check_for_1_key_def Let_def determine_spend_type_def set_input_stuff_def
        new_TxInputType_def split: if_splits sum.splits option.splits)
  with set_amount_fields [OF t] have pi: "prev_index t = Some (out_n (prevout txin))" by simp
  from t pi show ?thesis
    by (auto simp: set_amount_def split: option.splits sum.splits)
qed

theorem build_input_amount_witness:
  "build_input sample_lib own_fp in_legacy txin_0 =
     Inr (projr (build_input sample_lib own_fp in_legacy txin_0))
   \<and> non_witness_utxo in_legacy = Some prev_a
   \<and> py_index (vout prev_a) (out_n (prevout txin_0)) = Inr \<lparr>nValue = 50000, scriptPubKey = p2pkh_script\<rparr>
   \<and> amount (projr (build_input sample_lib own_fp in_legacy txin_0)) = Some 50000
   \<and> build_input sample_lib own_fp in_wrapped txin_1 =
     Inr (projr (build_input sample_lib own_fp in_wrapped txin_1))
   \<and> witness_utxo in_wrapped = Some \<lparr>nValue = 7000, scriptPubKey = p2sh_script\<rparr>
   \<and> amount (projr (build_input sample_lib own_fp in_wrapped txin_1)) = Some 7000"
proof -
  have "\<not> isl (build_input sample_lib own_fp in_legacy txin_0)"
      "\<not> isl (build_input sample_lib own_fp in_wrapped txin_1)"
    by code_simp+
  then have r: "build_input sample_lib own_fp in_legacy txin_0 =
        Inr (projr (build_input sample_lib own_fp in_legacy txin_0))"
      "build_input sample_lib own_fp in_wrapped txin_1 =
        Inr (projr (build_input sample_lib own_fp in_wrapped txin_1))"
    by simp_all
  have u: "non_witness_utxo in_legacy = Some prev_a"
      "non_witness_utxo in_wrapped = None"
      "witness_utxo in_wrapped = Some \<lparr>nValue = 7000, scriptPubKey = p2sh_script\<rparr>"
    by (simp_all add: in_legacy_def in_wrapped_def)
  have ix: "py_index (vout prev_a) (out_n (prevout txin_0)) =
      Inr \<lparr>nValue = 50000, scriptPubKey = p2pkh_script\<rparr>"
    by (simp add: py_index_def prev_a_def txin_0_def)
  from build_input_amount [OF r(1)] u(1) ix
  have a1: "amount (projr (build_input sample_lib own_fp in_legacy txin_0)) = Some 50000"
    by auto
  from build_input_amount [OF r(2)] u(2,3)
  have a2: "amount (projr (build_input sample_lib own_fp in_wrapped txin_1)) = Some 7000"
    by auto
  from r u ix a1 a2 show ?thesis by simp
qed

subsection \<open>The request builder: outputs\<close>

lemma build_output_cases:
  "build_output lib is_testnet out =
     (if is_p2pkh lib out then
        Inr \<lparr>o_address = Some (to_address lib (take 20 (drop 3 (scriptPubKey out)))
                                 (if is_testnet then [0x6f] else [0x00])),
             o_amount = Some (nValue out), o_script_type = Some PAYTOADDRESS\<rparr>
      else if is_p2sh lib out then
        Inr \<lparr>o_address = Some (to_address lib (take 20 (drop 2 (scriptPubKey out)))
                                 (if is_testnet then [0xc4] else [0x05])),
             o_amount = Some (nValue out), o_script_type = Some PAYTOADDRESS\<rparr>
      else if fst (is_witness lib out) then
        Inr \<lparr>o_address = Some (bech32_encode lib (if is_testnet then ''tb'' else ''bc'')
                                 (fst (snd (is_witness lib out))) (snd (snd (is_witness lib out)))),
             o_amount = Some (nValue out), o_script_type = Some PAYTOADDRESS\<rparr>
      else Inl (TypeError ''Output is not an address''))"
  by (simp add: build_output_def Let_def new_TxOutputType_def py_slice_def p2pkh_version_def
      p2sh_version_def bech32_hrp_def split: prod.splits)

lemma build_output_fields:
  assumes "build_output lib is_testnet out = Inr t"
  shows "o_script_type t = Some PAYTOADDRESS \<and> o_amount t = Some (nValue out)"
  using assms by (auto simp: build_output_cases split: if_splits)

lemma build_outputs_nth:
  assumes "build_outputs lib is_testnet outs = Inr ts"
  shows "length ts = length outs
       \<and> (\<forall>i<length outs. build_output lib is_testnet (outs ! i) = Inr (ts ! i))"
  using assms
proof (induction outs arbitrary: ts)
  case Nil
  then show ?case by simp
next
  case (Cons out outs)
  from Cons.prems obtain t ts' where t: "build_output lib is_testnet out = Inr t"
      and ts': "build_outputs lib is_testnet outs = Inr ts'" and ts: "ts = t # ts'"
    by (auto split: sum.splits)
  from Cons.IH [OF ts'] t ts show ?case
    by (auto simp: nth_Cons split: nat.splits)
qed

lemma build_output_error:
  assumes "build_output lib is_testnet out = Inl e"
  shows "e = TypeError ''Output is not an address''"
  using assms by (auto simp: build_output_cases split: if_splits)

lemma build_outputs_error:
  assumes "build_outputs lib is_testnet outs = Inl e"
  shows "e = TypeError ''Output is not an address''"
  using assms
proof (induction outs)
  case Nil
  then show ?case by simp
next
  case (Cons out outs)
  then show ?case
    by (auto split: sum.splits dest: build_output_error)
qed

lemma build_outputs_unsupported:
  assumes "\<exists>out \<in> set outs. \<not> is_p2pkh lib out \<and> \<not> is_p2sh lib out \<and> \<not> fst (is_witness lib out)"
  shows "build_outputs lib is_testnet outs = Inl (TypeError ''Output is not an address'')"
proof (cases "build_outputs lib is_testnet outs")
  case (Inl e)
  with build_outputs_error [OF Inl] show ?thesis by simp
next
  case (Inr ts)
  from assms obtain out where out: "out \<in> set outs"
      "\<not> is_p2pkh lib out" "\<not> is_p2sh lib out" "\<not> fst (is_witness lib out)"
    by blast
  then obtain i where i: "i < length outs" "outs ! i = out"
    by (auto simp: in_set_conv_nth)
  from build_outputs_nth [OF Inr] i have "build_output lib is_testnet out = Inr (ts ! i)"
    by auto
  with out show ?thesis by (simp add: build_output_cases)
qed

text \<open>
  C7. The address of an output is the base58check encoding of bytes 3..23 of its script
  with the P2PKH version byte of the network if the script matches the P2PKH pattern,
  else that of bytes 2..22 with the P2SH version byte if it matches the P2SH pattern,
  else the bech32 encoding of the witness version and program with the prefix of the
  network if it matches the witness pattern, and else the builder raises the
  \<^verbatim>\<open>TypeError\<close> of an output that is not an address. When the outputs are all built,
  there is one descriptor per output, in order, tagged \<open>PAYTOADDRESS\<close> and carrying
  the amount of its output; when one output matches no pattern, the builder raises.
\<close>

theorem build_output_address:
  "build_output lib is_testnet out =
     (if is_p2pkh lib out then
        Inr \<lparr>o_address = Some (to_address lib (take 20 (drop 3 (scriptPubKey out)))
                                 (if is_testnet then [0x6f] else [0x00])),
             o_amount = Some (nValue out), o_script_type = Some PAYTOADDRESS\<rparr>
      else if is_p2sh lib out then
        Inr \<lparr>o_address = Some (to_address lib (take 20 (drop 2 (scriptPubKey out)))
                                 (if is_testnet then [0xc4] else [0x05])),
             o_amount = Some (nValue out), o_script_type = Some PAYTOADDRESS\<rparr>
      else if fst (is_witness lib out) then
        Inr \<lparr>o_address = Some (bech32_encode lib (if is_testnet then ''tb'' else ''bc'')
                                 (fst (snd (is_witness lib out))) (snd (snd (is_witness lib out)))),
             o_amount = Some (nValue out), o_script_type = Some PAYTOADDRESS\<rparr>
      else Inl (TypeError ''Output is not an address''))
   \<and> (build_outputs lib is_testnet outs = Inr ts \<longrightarrow>
        length ts = length outs
        \<and> (\<forall>i<length outs. build_output lib is_testnet (outs ! i) = Inr (ts ! i)
              \<and> o_script_type (ts ! i) = Some PAYTOADDRESS
              \<and> o_amount (ts ! i) = Some (nValue (outs ! i))))
   \<and> ((\<exists>out \<in> set outs. \<not> is_p2pkh lib out \<and> \<not> is_p2sh lib out \<and> \<not> fst (is_witness lib out)) \<longrightarrow>
        build_outputs lib is_testnet outs = Inl (TypeError ''Output is not an address''))"
proof -
  have ok: "length ts = length outs
        \<and> (\<forall>i<length outs. build_output lib is_testnet (outs ! i) = Inr (ts ! i)
              \<and> o_script_type (ts ! i) = Some PAYTOADDRESS
              \<and> o_amount (ts ! i) = Some (nValue (outs ! i)))"
    if ts: "build_outputs lib is_testnet outs = Inr ts"
  proof (intro conjI allI impI)
    from build_outputs_nth [OF ts] show "length ts = length outs" by simp
  next
    fix i assume i: "i < length outs"
    from build_outputs_nth [OF ts] i
    show b: "build_output lib is_testnet (outs ! i) = Inr (ts ! i)" by simp
    from build_output_fields [OF b]
    show "o_script_type (ts ! i) = Some PAYTOADDRESS"
      and "o_amount (ts ! i) = Some (nValue (outs ! i))"
      by simp_all
  qed
  from build_output_cases [of lib is_testnet out] ok
    build_outputs_unsupported [of outs lib is_testnet]
  show ?thesis by blast
qed

theorem build_output_address_witness:
  "build_outputs sample_lib False
       [\<lparr>nValue = 50000, scriptPubKey = p2pkh_script\<rparr>,
        \<lparr>nValue = 50000, scriptPubKey = p2sh_script\<rparr>,
        \<lparr>nValue = 50000, scriptPubKey = p2wpkh_script\<rparr>] =
     Inr [\<lparr>o_address = Some (to_address sample_lib payload20 [0x00]),
           o_amount = Some 50000, o_script_type = Some PAYTOADDRESS\<rparr>,
          \<lparr>o_address = Some (to_address sample_lib payload20 [0x05]),
           o_amount = Some 50000, o_script_type = Some PAYTOADDRESS\<rparr>,
          \<lparr>o_address = Some (bech32_encode sample_lib ''bc'' 0 payload20),
           o_amount = Some 50000, o_script_type = Some PAYTOADDRESS\<rparr>]
   \<and> build_outputs sample_lib True
       [\<lparr>nValue = 50000, scriptPubKey = p2pkh_script\<rparr>,
        \<lparr>nValue = 50000, scriptPubKey = op_return_script\<rparr>] =
     Inl (TypeError ''Output is not an address'')"
proof -
  let ?o = "\<lambda>s. \<lparr>nValue = 50000, scriptPubKey = s\<rparr>"
  have p1: "is_p2pkh sample_lib (?o p2pkh_script)" by code_simp
  have p2: "\<not> is_p2pkh sample_lib (?o p2sh_script)" "is_p2sh sample_lib (?o p2sh_script)"
    by code_simp+
  have p3: "\<not> is_p2pkh sample_lib (?o p2wpkh_script)" "\<not> is_p2sh sample_lib (?o p2wpkh_script)"
      "is_witness sample_lib (?o p2wpkh_script) = (True, 0, payload20)"
    by code_simp+
  have p4: "\<not> is_p2pkh sample_lib (?o op_return_script)"
      "\<not> is_p2sh sample_lib (?o op_return_script)"
      "\<not> fst (is_witness sample_lib (?o op_return_script))"
    by code_simp+
  have sl: "take 20 (drop 3 p2pkh_script) = payload20" "take 20 (drop 2 p2sh_script) = payload20"
    by (simp_all add: p2pkh_script_def p2sh_script_def payload20_def)
  have b1: "build_output sample_lib False (?o p2pkh_script) =
      Inr \<lparr>o_address = Some (to_address sample_lib payload20 [0x00]),
           o_amount = Some 50000, o_script_type = Some PAYTOADDRESS\<rparr>"
    using build_output_address [of sample_lib False "?o p2pkh_script" "[]" "[]", THEN conjunct1]
      p1 sl by simp
  have b2: "build_output sample_lib False (?o p2sh_script) =
      Inr \<lparr>o_address = Some (to_address sample_lib payload20 [0x05]),
           o_amount = Some 50000, o_script_type = Some PAYTOADDRESS\<rparr>"
    using build_output_address [of sample_lib False "?o p2sh_script" "[]" "[]", THEN conjunct1]
      p2 sl by simp
  have b3: "build_output sample_lib False (?o p2wpkh_script) =
      Inr \<lparr>o_address = Some (bech32_encode sample_lib ''bc'' 0 payload20),
           o_amount = Some 50000, o_script_type = Some PAYTOADDRESS\<rparr>"
    using build_output_address [of sample_lib False "?o p2wpkh_script" "[]" "[]", THEN conjunct1]
      p3 by simp
  have ok: "build_outputs sample_lib False [?o p2pkh_script, ?o p2sh_script, ?o p2wpkh_script] =
     Inr [\<lparr>o_address = Some (to_address sample_lib payload20 [0x00]),
           o_amount = Some 50000, o_script_type = Some PAYTOADDRESS\<rparr>,
          \<lparr>o_address = Some (to_address sample_lib payload20 [0x05]),
           o_amount = Some 50000, o_script_type = Some PAYTOADDRESS\<rparr>,
          \<lparr>o_address = Some (bech32_encode sample_lib ''bc'' 0 payload20),
           o_amount = Some 50000, o_script_type = Some PAYTOADDRESS\<rparr>]"
    by (simp add: b1 b2 b3)
  define bad where "bad = [?o p2pkh_script, ?o op_return_script]"
  have "?o op_return_script \<in> set bad" by (simp add: bad_def)
  with p4 have "\<exists>out \<in> set bad. \<not> is_p2pkh sample_lib out \<and> \<not> is_p2sh sample_lib out
      \<and> \<not> fst (is_witness sample_lib out)"
    by blast
  with build_output_address [of sample_lib True "?o p2pkh_script" bad "[]"]
  have "build_outputs sample_lib True bad = Inl (TypeError ''Output is not an address'')"
    by blast
  then have bad: "build_outputs sample_lib True [?o p2pkh_script, ?o op_return_script] =
      Inl (TypeError ''Output is not an address'')"
    unfolding bad_def .
  from ok bad show ?thesis by (rule conjI)
qed

subsection \<open>The order of building, signing and merging\<close>

text \<open>
  C8. Once the device has given its fingerprint, a failure of the builder, on an input or
  on an output, ends the call with that exception, with the PSBT unchanged and without any
  signing request sent. A signing request is sent only when the whole request has been
  built, and the PSBT is changed only when the device has answered that request.
\<close>

theorem build_failure_before_rpc:
  assumes "get_public_node client [0] = Inr xpub"
      and "get_xpub_fingerprint lib xpub = Inr master_fp"
  shows "(build_inputs lib master_fp (zip (psbt_inputs tx) (vin (psbt_tx tx))) = Inl e \<longrightarrow>
            sign_tx lib client is_testnet tx = \<lparr>result = Inl e, psbt_after = tx, rpc_calls = []\<rparr>)
       \<and> (build_inputs lib master_fp (zip (psbt_inputs tx) (vin (psbt_tx tx))) = Inr ins
            \<and> build_outputs lib is_testnet (vout (psbt_tx tx)) = Inl e \<longrightarrow>
            sign_tx lib client is_testnet tx = \<lparr>result = Inl e, psbt_after = tx, rpc_calls = []\<rparr>)
       \<and> (build_request lib master_fp is_testnet tx = Inl e \<longrightarrow>
            sign_tx lib client is_testnet tx = \<lparr>result = Inl e, psbt_after = tx, rpc_calls = []\<rparr>)
       \<and> (rpc_calls (sign_tx lib client is_testnet tx) \<noteq> [] \<longrightarrow>
            (\<exists>req. build_request lib master_fp is_testnet tx = Inr req
                   \<and> rpc_calls (sign_tx lib client is_testnet tx) = [req]))
       \<and> (psbt_after (sign_tx lib client is_testnet tx) \<noteq> tx \<longrightarrow>
            (\<exists>req sigs raw. build_request lib master_fp is_testnet tx = Inr req
                   \<and> client_sign_tx client (get_tx lib tx) req = Inr (sigs, raw)))"
proof (intro conjI impI)
  assume "build_inputs lib master_fp (zip (psbt_inputs tx) (vin (psbt_tx tx))) = Inl e"
  then have "build_request lib master_fp is_testnet tx = Inl e"
    by (rule build_request_inputs_error)
  from sign_tx_build_error [OF assms this]
  show "sign_tx lib client is_testnet tx = \<lparr>result = Inl e, psbt_after = tx, rpc_calls = []\<rparr>" .
next
  assume "build_inputs lib master_fp (zip (psbt_inputs tx) (vin (psbt_tx tx))) = Inr ins
            \<and> build_outputs lib is_testnet (vout (psbt_tx tx)) = Inl e"
  then have "build_request lib master_fp is_testnet tx = Inl e"
    by (simp add: build_request_def)
  from sign_tx_build_error [OF assms this]
  show "sign_tx lib client is_testnet tx = \<lparr>result = Inl e, psbt_after = tx, rpc_calls = []\<rparr>" .
next
  assume "build_request lib master_fp is_testnet tx = Inl e"
  from sign_tx_build_error [OF assms this]
  show "sign_tx lib client is_testnet tx = \<lparr>result = Inl e, psbt_after = tx, rpc_calls = []\<rparr>" .
next
  assume "rpc_calls (sign_tx lib client is_testnet tx) \<noteq> []"
  then show "\<exists>req. build_request lib master_fp is_testnet tx = Inr req
                   \<and> rpc_calls (sign_tx lib client is_testnet tx) = [req]"
    using assms
    by (auto simp: sign_tx_def split: sum.splits prod.splits option.splits)
next
  assume "psbt_after (sign_tx lib client is_testnet tx) \<noteq> tx"
  then show "\<exists>req sigs raw. build_request lib master_fp is_testnet tx = Inr req
                   \<and> client_sign_tx client (get_tx lib tx) req = Inr (sigs, raw)"
    using assms
    by (auto simp: sign_tx_def split: sum.splits prod.splits option.splits)
qed

theorem build_failure_before_rpc_witness:
  "build_inputs sample_lib own_fp
       (zip (psbt_inputs (sample_psbt [in_native, in_multisig] [txin_0, txin_1] [p2pkh_script]))
            (vin (psbt_tx (sample_psbt [in_native, in_multisig] [txin_0, txin_1] [p2pkh_script])))) =
     Inl (TypeError ''Cannot sign multisig yet'')
   \<and> sign_tx sample_lib (sample_trezor [sig_1, sig_2]) False
         (sample_psbt [in_native, in_multisig] [txin_0, txin_1] [p2pkh_script]) =
       \<lparr>result = Inl (TypeError ''Cannot sign multisig yet''),
        psbt_after = sample_psbt [in_native, in_multisig] [txin_0, txin_1] [p2pkh_script],
        rpc_calls = []\<rparr>
   \<and> build_outputs sample_lib False
       (vout (psbt_tx (sample_psbt [in_native] [txin_0] [p2pkh_script, op_return_script]))) =
     Inl (TypeError ''Output is not an address'')
   \<and> sign_tx sample_lib (sample_trezor [sig_1]) False
         (sample_psbt [in_native] [txin_0] [p2pkh_script, op_return_script]) =
       \<lparr>result = Inl (TypeError ''Output is not an address''),
        psbt_after = sample_psbt [in_native] [txin_0] [p2pkh_script, op_return_script],
        rpc_calls = []\<rparr>
   \<and> psbt_after (sign_tx sample_lib (sample_trezor [sig_1]) False
         (sample_psbt [in_native] [txin_0] [p2pkh_script])) \<noteq>
       sample_psbt [in_native] [txin_0] [p2pkh_script]
   \<and> rpc_calls (sign_tx sample_lib (sample_trezor [sig_1]) False
         (sample_psbt [in_native] [txin_0] [p2pkh_script])) =
       [projr (build_request sample_lib own_fp False (sample_psbt [in_native] [txin_0] [p2pkh_script]))]
   \<and> client_sign_tx (sample_trezor [sig_1])
         (get_tx sample_lib (sample_psbt [in_native] [txin_0] [p2pkh_script]))
         (projr (build_request sample_lib own_fp False (sample_psbt [in_native] [txin_0] [p2pkh_script]))) =
       Inr ([sig_1], [])"
proof -
  let ?m = "sample_psbt [in_native, in_multisig] [txin_0, txin_1] [p2pkh_script]"
  let ?b = "sample_psbt [in_native] [txin_0] [p2pkh_script, op_return_script]"
  let ?g = "sample_psbt [in_native] [txin_0] [p2pkh_script]"
  have pn: "get_public_node (sample_trezor sigs) [0] = Inr ''xpub-of-this-device''" for sigs
    by (simp add: sample_trezor_def)
  have fp: "get_xpub_fingerprint sample_lib ''xpub-of-this-device'' = Inr own_fp"
    by (simp add: sample_lib_def own_fp_def)
  have im: "build_inputs sample_lib own_fp (zip (psbt_inputs ?m) (vin (psbt_tx ?m))) =
      Inl (TypeError ''Cannot sign multisig yet'')"
    by code_simp
  have "\<not> isl (build_inputs sample_lib own_fp (zip (psbt_inputs ?b) (vin (psbt_tx ?b))))"
    by code_simp
  then have ib: "build_inputs sample_lib own_fp (zip (psbt_inputs ?b) (vin (psbt_tx ?b))) =
      Inr (projr (build_inputs sample_lib own_fp (zip (psbt_inputs ?b) (vin (psbt_tx ?b)))))"
    by simp
  have ob: "build_outputs sample_lib False (vout (psbt_tx ?b)) =
      Inl (TypeError ''Output is not an address'')"
    by code_simp
  have ch: "psbt_after (sign_tx sample_lib (sample_trezor [sig_1]) False ?g) \<noteq> ?g"
    by code_simp
  have rc: "rpc_calls (sign_tx sample_lib (sample_trezor [sig_1]) False ?g) \<noteq> []"
    by code_simp
  note m = build_failure_before_rpc [OF pn [of "[sig_1, sig_2]"] fp, where tx = ?m
      and e = "TypeError ''Cannot sign multisig yet''" and is_testnet = False]
  note b = build_failure_before_rpc [OF pn [of "[sig_1]"] fp, where tx = ?b
      and e = "TypeError ''Output is not an address''" and is_testnet = False
      and ins = "projr (build_inputs sample_lib own_fp (zip (psbt_inputs ?b) (vin (psbt_tx ?b))))"]
  note g = build_failure_before_rpc [OF pn [of "[sig_1]"] fp, where tx = ?g and is_testnet = False]
  have c1: "sign_tx sample_lib (sample_trezor [sig_1, sig_2]) False ?m =
       \<lparr>result = Inl (TypeError ''Cannot sign multisig yet''), psbt_after = ?m, rpc_calls = []\<rparr>"
    using m im by blast
  have c2: "sign_tx sample_lib (sample_trezor [sig_1]) False ?b =
       \<lparr>result = Inl (TypeError ''Output is not an address''), psbt_after = ?b, rpc_calls = []\<rparr>"
    using b ib ob by blast
  from g rc obtain req where req: "build_request sample_lib own_fp False ?g = Inr req"
      "rpc_calls (sign_tx sample_lib (sample_trezor [sig_1]) False ?g) = [req]"
    by blast
  from g ch obtain req' sigs raw where req': "build_request sample_lib own_fp False ?g = Inr req'"
      "client_sign_tx (sample_trezor [sig_1]) (get_tx sample_lib ?g) req' = Inr (sigs, raw)"
    by blast
  from req req' have pr: "projr (build_request sample_lib own_fp False ?g) = req" "req' = req"
    by simp_all
  have "resolve_prev_txs (get_tx sample_lib ?g) (req_inputs req) = None"
    using req'(2) pr by (auto simp: sample_trezor_def split: option.splits)
  then have c4: "client_sign_tx (sample_trezor [sig_1]) (get_tx sample_lib ?g) req = Inr ([sig_1], [])"
    by (simp add: sample_trezor_def)
  from im c1 ob c2 ch req(2) c4 pr show ?thesis by simp
qed

end
